theory Spec2Isabelle
  imports Complex_Main "HOL-Library.Multiset" "HOL-Library.Word"
begin

section \<open>Values shared by the relay (worker) and the driver (FileUploader)\<close>

text \<open>
  The relay is the \<^verbatim>\<open>fetch\<close> handler of the worker; the driver is
  \<^verbatim>\<open>handleMultipartUpload\<close> of the upload component. Sizes, offsets and part
  numbers are JavaScript numbers that hold integers (a \<^verbatim>\<open>File\<close>'s size, loop counters,
  products and sums of those); they are modelled as \<^typ>\<open>int\<close>, which is exact for the
  integers a JavaScript number holds exactly. A thrown value is modelled by its
  \<^verbatim>\<open>message\<close> string. Request fields have the types the handlers declare or the driver
  sends (strings, integer part numbers); a field that is not there is \<open>None\<close>. A
  \<^typ>\<open>string\<close> is the UTF-8 encoding of a JavaScript string of well-formed Unicode, so a
  code point beyond ASCII is several \<^typ>\<open>char\<close>s. Logging and the CORS headers have no
  effect on what is verified and are left out.
\<close>

type_synonym bytes = "8 word list"

record numbered =
  partNumber :: int

record plan_part = numbered +
  url :: string

record completed_part = numbered +
  etag :: string

text \<open>
  A number that \<^verbatim>\<open>parseInt\<close> returns: \<^verbatim>\<open>NaN\<close>, a double that holds an integer, or an
  infinity. (\<^verbatim>\<open>-0\<close> is \<open>Finite 0\<close>: both are falsy, and nothing else is asked of them.)
\<close>

datatype js_number = NaN | Finite int | PosInfinity | NegInfinity

text \<open>
  An element of the \<^verbatim>\<open>parts\<close> array of a completion request: \<^verbatim>\<open>null\<close>; an object
  \<^verbatim>\<open>{partNumber, etag}\<close> with an integer part number and a string ETag; a value whose
  \<^verbatim>\<open>partNumber\<close> cannot be converted to a number (an object or array that, read from
  JSON, has no callable \<^verbatim>\<open>valueOf\<close> or \<^verbatim>\<open>toString\<close> to convert it, such as
  \<^verbatim>\<open>{"valueOf": 0, "toString": 0}\<close>); or any other JSON value.
\<close>

datatype part_value = NullValue | PartValue completed_part | UnconvertibleValue | OtherValue

text \<open>What \<^verbatim>\<open>await request.json()\<close> gives: a rejection (the body is not JSON), the JSON
  value \<^verbatim>\<open>null\<close> (reading a property of it throws a TypeError), or an object whose
  fields are read. The wording of a TypeError is the engine's; \<open>null_property_message\<close>
  stands for it.\<close>

datatype 'a req_body = NotJson string | JsonNull | JsonObject 'a

definition null_property_message :: string where
  "null_property_message = ''Cannot read properties of null''"

subsection \<open>The object store as the relay sees it\<close>

text \<open>
  \<^verbatim>\<open>env.BUCKET\<close> is external. Each of its operations either throws (\<open>Inl\<close> of the
  message) or returns (\<open>Inr\<close>); the handlers are verified for every such behaviour.
  \<^verbatim>\<open>resumeMultipartUpload\<close> returns a handle, which is the pair of its arguments; the
  handle's methods \<^verbatim>\<open>uploadPart\<close>, \<^verbatim>\<open>complete\<close> and \<^verbatim>\<open>abort\<close> take that pair first.
  The abort handler passes the key and the upload id on as it destructured them, so either
  may be \<^verbatim>\<open>undefined\<close> there: \<open>None\<close>. \<^verbatim>\<open>complete\<close> is one method; its answer to a
  list of \<^verbatim>\<open>{partNumber, etag}\<close> objects is the field \<open>complete\<close>, and its answer to an
  array that holds something else, left in the order the engine's sort gives it, is the
  field \<open>complete_other\<close>.
\<close>

record backend =
  createMultipartUpload :: "string \<Rightarrow> string + string"
  resumeMultipartUpload :: "string option \<Rightarrow> string option \<Rightarrow> string + unit"
  uploadPart :: "string option \<Rightarrow> string option \<Rightarrow> js_number \<Rightarrow> bytes \<Rightarrow> string + string"
  complete :: "string option \<Rightarrow> string option \<Rightarrow> completed_part list \<Rightarrow> string + unit"
  complete_other :: "string option \<Rightarrow> string option \<Rightarrow> part_value list \<Rightarrow> string + unit"
  abort :: "string option \<Rightarrow> string option \<Rightarrow> string + unit"

text \<open>The calls a handler makes on the store, in order. \<open>CompleteOther\<close> is the call of
  \<^verbatim>\<open>complete\<close> with an array that is not a list of parts: its elements are those of the
  request, in an order that the engine's sort decides and the model leaves open.\<close>

datatype backend_call =
    CreateMultipartUpload string
  | ResumeMultipartUpload "string option" "string option"
  | UploadPart "string option" "string option" js_number bytes
  | Complete "string option" "string option" "completed_part list"
  | CompleteOther "string option" "string option" "part_value multiset"
  | Abort "string option" "string option"

text \<open>A store on which every operation succeeds, and one on which every operation throws.\<close>

definition ok_backend :: backend where
  "ok_backend =
     \<lparr>createMultipartUpload = (\<lambda>key. Inr ''upload-1''),
      resumeMultipartUpload = (\<lambda>key uploadId. Inr ()),
      uploadPart = (\<lambda>key uploadId pn data. Inr ''etag''),
      complete = (\<lambda>key uploadId parts. Inr ()),
      complete_other = (\<lambda>key uploadId values. Inr ()),
      abort = (\<lambda>key uploadId. Inr ())\<rparr>"

definition failing_backend :: backend where
  "failing_backend =
     \<lparr>createMultipartUpload = (\<lambda>key. Inl ''store error''),
      resumeMultipartUpload = (\<lambda>key uploadId. Inl ''store error''),
      uploadPart = (\<lambda>key uploadId pn data. Inl ''store error''),
      complete = (\<lambda>key uploadId parts. Inl ''store error''),
      complete_other = (\<lambda>key uploadId values. Inl ''store error''),
      abort = (\<lambda>key uploadId. Inl ''store error'')\<rparr>"

text \<open>A store that resumes an upload but rejects every part.\<close>

definition part_failing_backend :: backend where
  "part_failing_backend =
     \<lparr>createMultipartUpload = (\<lambda>key. Inr ''upload-1''),
      resumeMultipartUpload = (\<lambda>key uploadId. Inr ()),
      uploadPart = (\<lambda>key uploadId pn data. Inl ''store error''),
      complete = (\<lambda>key uploadId parts. Inr ()),
      complete_other = (\<lambda>key uploadId values. Inr ()),
      abort = (\<lambda>key uploadId. Inr ())\<rparr>"

subsection \<open>Responses\<close>

text \<open>The JSON and text bodies the relay writes, with the status of the response.\<close>

datatype resp_body =
    NoBody
  | Text string
  | ErrorJson string string
  | SimpleJson string string
  | MultipartJson string "plan_part list" string
  | SuccessJson
  | PartJson string

record response =
  status :: nat
  body :: resp_body

text \<open>A handler returns a response, or an exception leaves it uncaught.\<close>

datatype outcome = Responded response | Uncaught string

definition json_response :: "nat \<Rightarrow> resp_body \<Rightarrow> outcome" where
  "json_response st b = Responded \<lparr>status = st, body = b\<rparr>"

fun error_of :: "outcome \<Rightarrow> string option" where
  "error_of (Responded r) = (case body r of ErrorJson e d \<Rightarrow> Some e | _ \<Rightarrow> None)"
| "error_of (Uncaught m) = None"

fun status_of :: "outcome \<Rightarrow> nat option" where
  "status_of (Responded r) = Some (status r)"
| "status_of (Uncaught m) = None"

text \<open>The \<^verbatim>\<open>type\<close> and the \<^verbatim>\<open>parts\<close> of a plan, read off a response as the driver
  does.\<close>

fun plan_type :: "outcome \<Rightarrow> string option" where
  "plan_type (Responded r) =
     (case body r of
        SimpleJson u f \<Rightarrow> Some ''simple''
      | MultipartJson i ps f \<Rightarrow> Some ''multipart''
      | _ \<Rightarrow> None)"
| "plan_type (Uncaught m) = None"

fun plan_parts :: "outcome \<Rightarrow> plan_part list" where
  "plan_parts (Responded r) = (case body r of MultipartJson i ps f \<Rightarrow> ps | _ \<Rightarrow> [])"
| "plan_parts (Uncaught m) = []"

text \<open>JavaScript truthiness of a value that is a string when it is there: \<^verbatim>\<open>undefined\<close>,
  \<^verbatim>\<open>null\<close> and the empty string are falsy.\<close>

fun truthy :: "string option \<Rightarrow> bool" where
  "truthy None = False"
| "truthy (Some s) = (s \<noteq> [])"

text \<open>\<^verbatim>\<open>error.message || 'Unknown error'\<close>\<close>

definition details_of :: "string \<Rightarrow> string" where
  "details_of message = (if message = [] then ''Unknown error'' else message)"

subsection \<open>Numbers in template strings\<close>

text \<open>An integer in a template literal is printed in decimal. (From \<open>10^21\<close> on JavaScript
  prints a number with an exponent; the numbers printed here, part numbers and counts of
  a plan and HTTP status codes, are below that except in the text of the
  \<open>File too large\<close> answer for a file of \<open>10^28\<close> bytes or more.)\<close>

definition digit_char :: "nat \<Rightarrow> char" where
  "digit_char d = ''0123456789'' ! d"

fun string_of_nat :: "nat \<Rightarrow> string" where
  "string_of_nat n =
     (if n < 10 then [digit_char n]
      else string_of_nat (n div 10) @ [digit_char (n mod 10)])"

declare string_of_nat.simps [simp del]

definition string_of_int :: "int \<Rightarrow> string" where
  "string_of_int i = (if i < 0 then CHR ''-'' # string_of_nat (nat (- i)) else string_of_nat (nat i))"

section \<open>The relay: \<^verbatim>\<open>/api/initiate-upload\<close>\<close>

definition MIN_PART_SIZE :: int where
  "MIN_PART_SIZE = 5 * 1024 * 1024"

definition MAX_PARTS :: int where
  "MAX_PARTS = 10000"

definition CHUNK_SIZE :: int where
  "CHUNK_SIZE = 10 * 1024 * 1024"

text \<open>\<^verbatim>\<open>Math.ceil(a / b)\<close> on integers, for a positive divisor.\<close>

definition ceil_div :: "int \<Rightarrow> int \<Rightarrow> int" where
  "ceil_div a b = - ((- a) div b)"

text \<open>The body is cast to \<^verbatim>\<open>{ filename: string; fileSize: number }\<close>; the request is the
  pair of the two fields.\<close>

definition getUploadUrl :: "string \<Rightarrow> string \<Rightarrow> string \<Rightarrow> int \<Rightarrow> string" where
  "getUploadUrl origin key uploadId pn =
     origin @ ''/api/upload-part/'' @ key @ ''?partNumber='' @ string_of_int pn
       @ ''&uploadId='' @ uploadId"

text \<open>The loop \<^verbatim>\<open>for (let partNumber = 1; partNumber <= partCount; partNumber++)\<close>,
  started at any counter with the parts pushed so far.\<close>

function plan_loop :: "string \<Rightarrow> string \<Rightarrow> string \<Rightarrow> int \<Rightarrow> int \<Rightarrow> plan_part list \<Rightarrow> plan_part list" where
  "plan_loop origin key uploadId partCount pn parts =
     (if pn \<le> partCount
      then plan_loop origin key uploadId partCount (pn + 1)
             (parts @ [\<lparr>partNumber = pn, url = getUploadUrl origin key uploadId pn\<rparr>])
      else parts)"
  by pat_completeness auto
termination
  by (relation "measure (\<lambda>(origin, key, uploadId, partCount, pn, parts). nat (partCount + 1 - pn))") auto

declare plan_loop.simps [simp del]

definition initiate_upload :: "backend \<Rightarrow> string \<Rightarrow> (string \<times> int) req_body \<Rightarrow> outcome \<times> backend_call list" where
  "initiate_upload env origin request_json =
     (case request_json of
        NotJson m \<Rightarrow>
          (json_response 400 (ErrorJson ''Invalid request'' ''Could not parse request body''), [])
      | JsonNull \<Rightarrow>
          (json_response 400 (ErrorJson ''Invalid request'' ''Could not parse request body''), [])
      | JsonObject (filename, fileSize) \<Rightarrow>
          if fileSize > CHUNK_SIZE then
            let partCount = ceil_div fileSize CHUNK_SIZE in
            if CHUNK_SIZE < MIN_PART_SIZE then
              (json_response 400 (ErrorJson ''Invalid chunk size''
                 (''Chunk size must be at least '' @ string_of_int MIN_PART_SIZE @ '' bytes (5MB)'')), [])
            else if partCount > MAX_PARTS then
              (json_response 400 (ErrorJson ''File too large''
                 (''File would require '' @ string_of_int partCount
                    @ '' parts, but R2 only supports '' @ string_of_int MAX_PARTS
                    @ '' parts maximum'')), [])
            else
              (case createMultipartUpload env filename of
                 Inl m \<Rightarrow> (Uncaught m, [CreateMultipartUpload filename])
               | Inr uploadId \<Rightarrow>
                   (json_response 200 (MultipartJson uploadId
                      (plan_loop origin filename uploadId partCount 1 []) filename),
                    [CreateMultipartUpload filename]))
          else (json_response 200 (SimpleJson ''/api/upload'' filename), []))"

section \<open>The relay: \<^verbatim>\<open>/api/abort-multipart\<close>\<close>

text \<open>
  \<^verbatim>\<open>const { filename, uploadId } = await request.json()\<close> stands before the
  \<^verbatim>\<open>try\<close>: what it throws is not caught. The request is the pair of the two fields as
  destructured (\<open>None\<close> for a field that is not there).
\<close>

definition abort_multipart :: "backend \<Rightarrow> (string option \<times> string option) req_body \<Rightarrow> outcome \<times> backend_call list" where
  "abort_multipart env request_json =
     (case request_json of
        NotJson m \<Rightarrow> (Uncaught m, [])
      | JsonNull \<Rightarrow> (Uncaught null_property_message, [])
      | JsonObject (filename, uploadId) \<Rightarrow>
          (case resumeMultipartUpload env filename uploadId of
             Inl m \<Rightarrow>
               (json_response 500 (ErrorJson ''Failed to abort multipart upload'' (details_of m)),
                [ResumeMultipartUpload filename uploadId])
           | Inr upload \<Rightarrow>
               (case abort env filename uploadId of
                  Inl m \<Rightarrow>
                    (json_response 500 (ErrorJson ''Failed to abort multipart upload'' (details_of m)),
                     [ResumeMultipartUpload filename uploadId, Abort filename uploadId])
                | Inr u \<Rightarrow>
                    (json_response 200 SuccessJson,
                     [ResumeMultipartUpload filename uploadId, Abort filename uploadId]))))"

section \<open>The relay: \<^verbatim>\<open>/api/complete-multipart\<close>\<close>

text \<open>
  The \<^verbatim>\<open>parts\<close> field as destructured: not there, there but not an array, an array
  of \<^verbatim>\<open>{partNumber, etag}\<close> objects as the driver sends them (\<open>PartsArray\<close>), or an
  array of any JSON values (\<open>PartsArrayOther\<close>, meant for an array with an element that
  is not such an object; an array of such objects only is treated as \<open>PartsArray\<close> of
  them).
\<close>

datatype parts_field =
    PartsMissing
  | PartsNotArray
  | PartsArray "completed_part list"
  | PartsArrayOther "part_value list"

fun isArray :: "parts_field \<Rightarrow> bool" where
  "isArray (PartsArray ps) = True"
| "isArray (PartsArrayOther vs) = True"
| "isArray PartsMissing = False"
| "isArray PartsNotArray = False"

text \<open>
  \<^verbatim>\<open>parts.sort((a, b) => a.partNumber - b.partNumber)\<close>. \<^verbatim>\<open>Array.prototype.sort\<close> is a
  stable sort by the comparator it is given: \<open>a\<close> stays before \<open>b\<close> when the comparator is
  not positive. Under a comparator that is a consistent order, as a difference of integers
  is, every stable sort gives the same list; insertion is the one written here.
\<close>

fun insert_by :: "('a \<Rightarrow> 'a \<Rightarrow> int) \<Rightarrow> 'a \<Rightarrow> 'a list \<Rightarrow> 'a list" where
  "insert_by cmp x [] = [x]"
| "insert_by cmp x (y # ys) = (if cmp x y \<le> 0 then x # y # ys else y # insert_by cmp x ys)"

definition array_sort :: "('a \<Rightarrow> 'a \<Rightarrow> int) \<Rightarrow> 'a list \<Rightarrow> 'a list" where
  "array_sort cmp xs = foldr (insert_by cmp) xs []"

definition sort_parts :: "completed_part list \<Rightarrow> completed_part list" where
  "sort_parts parts = array_sort (\<lambda>a b. partNumber a - partNumber b) parts"

text \<open>
  On an array with other elements the comparator reads \<^verbatim>\<open>partNumber\<close> of each element it
  is given and subtracts. Reading it of \<^verbatim>\<open>null\<close> throws a TypeError, and so does the
  subtraction when a \<^verbatim>\<open>partNumber\<close> cannot be converted to a number; for any other JSON
  value the difference is a number or \<^verbatim>\<open>NaN\<close>. Sorting two or more elements hands every
  element to the comparator; sorting fewer calls it not at all. The details of the 500
  answer are the engine's wording of the TypeError, for which \<open>null_property_message\<close>
  stands here too.
\<close>

fun parts_of :: "part_value list \<Rightarrow> completed_part list option" where
  "parts_of [] = Some []"
| "parts_of (PartValue p # vs) = (case parts_of vs of Some ps \<Rightarrow> Some (p # ps) | None \<Rightarrow> None)"
| "parts_of (NullValue # vs) = None"
| "parts_of (UnconvertibleValue # vs) = None"
| "parts_of (OtherValue # vs) = None"

fun throws_in_comparator :: "part_value \<Rightarrow> bool" where
  "throws_in_comparator NullValue = True"
| "throws_in_comparator UnconvertibleValue = True"
| "throws_in_comparator (PartValue p) = False"
| "throws_in_comparator OtherValue = False"

definition comparator_throws :: "part_value list \<Rightarrow> bool" where
  "comparator_throws vs = (2 \<le> length vs \<and> list_ex throws_in_comparator vs)"

text \<open>The rest of the \<^verbatim>\<open>try\<close> block once the parts are sorted.\<close>

definition complete_sorted :: "backend \<Rightarrow> string option \<Rightarrow> string option \<Rightarrow> completed_part list \<Rightarrow> outcome \<times> backend_call list" where
  "complete_sorted env filename uploadId sortedParts =
     (case resumeMultipartUpload env filename uploadId of
        Inl m \<Rightarrow>
          (json_response 500 (ErrorJson ''Failed to complete multipart upload'' (details_of m)),
           [ResumeMultipartUpload filename uploadId])
      | Inr upload \<Rightarrow>
          (case complete env filename uploadId sortedParts of
             Inl m \<Rightarrow>
               (json_response 500 (ErrorJson ''Failed to complete multipart upload'' (details_of m)),
                [ResumeMultipartUpload filename uploadId, Complete filename uploadId sortedParts])
           | Inr u \<Rightarrow>
               (json_response 200 SuccessJson,
                [ResumeMultipartUpload filename uploadId, Complete filename uploadId sortedParts])))"

definition complete_other_sorted :: "backend \<Rightarrow> string option \<Rightarrow> string option \<Rightarrow> part_value list \<Rightarrow> outcome \<times> backend_call list" where
  "complete_other_sorted env filename uploadId vs =
     (case resumeMultipartUpload env filename uploadId of
        Inl m \<Rightarrow>
          (json_response 500 (ErrorJson ''Failed to complete multipart upload'' (details_of m)),
           [ResumeMultipartUpload filename uploadId])
      | Inr upload \<Rightarrow>
          (case complete_other env filename uploadId vs of
             Inl m \<Rightarrow>
               (json_response 500 (ErrorJson ''Failed to complete multipart upload'' (details_of m)),
                [ResumeMultipartUpload filename uploadId, CompleteOther filename uploadId (mset vs)])
           | Inr u \<Rightarrow>
               (json_response 200 SuccessJson,
                [ResumeMultipartUpload filename uploadId, CompleteOther filename uploadId (mset vs)])))"

definition complete_multipart :: "backend \<Rightarrow> (string option \<times> string option \<times> parts_field) req_body \<Rightarrow> outcome \<times> backend_call list" where
  "complete_multipart env request_json =
     (case request_json of
        NotJson m \<Rightarrow>
          (json_response 500 (ErrorJson ''Failed to complete multipart upload'' (details_of m)), [])
      | JsonNull \<Rightarrow>
          (json_response 500 (ErrorJson ''Failed to complete multipart upload''
             (details_of null_property_message)), [])
      | JsonObject (filename, uploadId, parts) \<Rightarrow>
          if \<not> truthy filename \<or> \<not> truthy uploadId \<or> \<not> isArray parts then
            (json_response 400 (ErrorJson ''Invalid request'' ''Missing required fields''), [])
          else
            (case parts of
               PartsArray ps \<Rightarrow> complete_sorted env filename uploadId (sort_parts ps)
             | PartsArrayOther vs \<Rightarrow>
                 (case parts_of vs of
                    Some ps \<Rightarrow> complete_sorted env filename uploadId (sort_parts ps)
                  | None \<Rightarrow>
                      if comparator_throws vs then
                        (json_response 500 (ErrorJson ''Failed to complete multipart upload''
                           (details_of null_property_message)), [])
                      else complete_other_sorted env filename uploadId vs)
             | _ \<Rightarrow>
                 (json_response 400 (ErrorJson ''Invalid request'' ''Missing required fields''), [])))"

section \<open>The relay: \<^verbatim>\<open>/api/upload-part/\<close>\<close>

text \<open>
  \<^verbatim>\<open>parseInt(s, 10)\<close>: leading white space is skipped, one sign is read, then the longest
  run of decimal digits; no digit gives \<^verbatim>\<open>NaN\<close>. White space is every
  \<^verbatim>\<open>StrWhiteSpaceChar\<close>: TAB, LF, VT, FF, CR, SP, U+00A0, U+1680, U+2000 to U+200A, U+2028,
  U+2029, U+202F, U+205F, U+3000 and U+FEFF, here with their UTF-8 encodings.
\<close>

definition white_space :: "string list" where
  "white_space =
     [[CHR 0x09], [CHR 0x0A], [CHR 0x0B], [CHR 0x0C], [CHR 0x0D], [CHR 0x20],
      [CHR 0xC2, CHR 0xA0],
      [CHR 0xE1, CHR 0x9A, CHR 0x80],
      [CHR 0xE2, CHR 0x80, CHR 0x80], [CHR 0xE2, CHR 0x80, CHR 0x81], [CHR 0xE2, CHR 0x80, CHR 0x82],
      [CHR 0xE2, CHR 0x80, CHR 0x83], [CHR 0xE2, CHR 0x80, CHR 0x84], [CHR 0xE2, CHR 0x80, CHR 0x85],
      [CHR 0xE2, CHR 0x80, CHR 0x86], [CHR 0xE2, CHR 0x80, CHR 0x87], [CHR 0xE2, CHR 0x80, CHR 0x88],
      [CHR 0xE2, CHR 0x80, CHR 0x89], [CHR 0xE2, CHR 0x80, CHR 0x8A],
      [CHR 0xE2, CHR 0x80, CHR 0xA8], [CHR 0xE2, CHR 0x80, CHR 0xA9], [CHR 0xE2, CHR 0x80, CHR 0xAF],
      [CHR 0xE2, CHR 0x81, CHR 0x9F],
      [CHR 0xE3, CHR 0x80, CHR 0x80],
      [CHR 0xEF, CHR 0xBB, CHR 0xBF]]"

definition leading_white_space :: "string \<Rightarrow> string option" where
  "leading_white_space s = find (\<lambda>w. take (length w) s = w) white_space"

function skip_white_space :: "string \<Rightarrow> string" where
  "skip_white_space s =
     (case leading_white_space s of
        None \<Rightarrow> s
      | Some w \<Rightarrow> skip_white_space (drop (length w) s))"
  by pat_completeness auto
termination
proof (relation "measure length")
  show "wf (measure length)" by simp
next
  fix s w :: string
  assume "leading_white_space s = Some w"
  then have "w \<in> set white_space" and "take (length w) s = w"
    by (auto simp: leading_white_space_def find_Some_iff)
  then have "w \<noteq> []" and "take (length w) s = w"
    by (auto simp: white_space_def)
  then have "s \<noteq> []" and "0 < length w" by auto
  then show "(drop (length w) s, s) \<in> measure length" by simp
qed

declare skip_white_space.simps [simp del]

definition is_digit :: "char \<Rightarrow> bool" where
  "is_digit c = (c \<in> set ''0123456789'')"

definition digit_value :: "char \<Rightarrow> nat" where
  "digit_value c = length (takeWhile (\<lambda>d. d \<noteq> c) ''0123456789'')"

definition digits_value :: "string \<Rightarrow> int" where
  "digits_value ds = foldl (\<lambda>acc c. 10 * acc + int (digit_value c)) 0 ds"

text \<open>
  The number of the digits becomes a double: below \<open>2^53\<close> it is kept, beyond it is rounded
  to 53 significant bits, a tie to the even neighbour, and a result of \<open>2^1024\<close> or more
  is an infinity (\<open>None\<close>). All digits count; the language lets an engine read those after
  the twentieth as zeros.
\<close>

function bit_length :: "int \<Rightarrow> nat" where
  "bit_length n = (if n \<le> 0 then 0 else Suc (bit_length (n div 2)))"
  by pat_completeness auto
termination
  by (relation "measure nat") auto

declare bit_length.simps [simp del]

definition round_to_double :: "int \<Rightarrow> int option" where
  "round_to_double n =
     (if n < 2 ^ 53 then Some n
      else
        let e = bit_length n - 53;
            q = n div 2 ^ e;
            r = n mod 2 ^ e;
            half = 2 ^ (e - 1);
            rounded = (if half < r \<or> (r = half \<and> odd q) then q + 1 else q) * 2 ^ e
        in if 2 ^ 1024 \<le> rounded then None else Some rounded)"

definition parseInt :: "string \<Rightarrow> js_number" where
  "parseInt s =
     (let t = skip_white_space s;
          negative = (case t of [] \<Rightarrow> False | c # r \<Rightarrow> c = CHR ''-'');
          u = (case t of [] \<Rightarrow> [] | c # r \<Rightarrow> if c = CHR ''-'' \<or> c = CHR ''+'' then r else t);
          ds = takeWhile is_digit u
      in if ds = [] then NaN
         else
           (case round_to_double (digits_value ds) of
              None \<Rightarrow> if negative then NegInfinity else PosInfinity
            | Some v \<Rightarrow> Finite (if negative then - v else v)))"

text \<open>\<^verbatim>\<open>url.searchParams.get(name) || '0'\<close>\<close>

definition or_default :: "string option \<Rightarrow> string \<Rightarrow> string" where
  "or_default v d = (if truthy v then (case v of Some s \<Rightarrow> s | None \<Rightarrow> d) else d)"

text \<open>\<^verbatim>\<open>!partNumber\<close>: \<^verbatim>\<open>NaN\<close> and \<^verbatim>\<open>0\<close> are falsy.\<close>

fun truthy_number :: "js_number \<Rightarrow> bool" where
  "truthy_number NaN = False"
| "truthy_number (Finite n) = (n \<noteq> 0)"
| "truthy_number PosInfinity = True"
| "truthy_number NegInfinity = True"

text \<open>
  The request body is a stream that ends: each \<^verbatim>\<open>reader.read()\<close> gives a chunk or
  throws, and after the last element the stream is done.
\<close>

datatype read_result = Chunk bytes | ReadError string

fun read_loop :: "read_result list \<Rightarrow> bytes list \<Rightarrow> string + bytes list" where
  "read_loop [] chunks = Inr chunks"
| "read_loop (Chunk v # rest) chunks = read_loop rest (chunks @ [v])"
| "read_loop (ReadError m # rest) chunks = Inl m"

text \<open>\<^verbatim>\<open>chunks.reduce((acc, chunk) => acc + chunk.length, 0)\<close>\<close>

definition totalLength :: "bytes list \<Rightarrow> nat" where
  "totalLength chunks = foldl (\<lambda>acc chunk. acc + length chunk) 0 chunks"

text \<open>\<^verbatim>\<open>buffer.set(chunk, offset)\<close>, and the loop that copies every chunk at its offset.\<close>

definition buffer_set :: "bytes \<Rightarrow> bytes \<Rightarrow> nat \<Rightarrow> bytes" where
  "buffer_set buffer chunk offset = take offset buffer @ chunk @ drop (offset + length chunk) buffer"

fun copy_chunks :: "bytes list \<Rightarrow> bytes \<Rightarrow> nat \<Rightarrow> bytes" where
  "copy_chunks [] buffer offset = buffer"
| "copy_chunks (chunk # rest) buffer offset =
     copy_chunks rest (buffer_set buffer chunk offset) (offset + length chunk)"

definition concat_chunks :: "bytes list \<Rightarrow> bytes" where
  "concat_chunks chunks = copy_chunks chunks (replicate (totalLength chunks) 0) 0"

definition upload_part :: "backend \<Rightarrow> string \<Rightarrow> string \<Rightarrow> (string \<times> string) list \<Rightarrow> read_result list option \<Rightarrow> outcome \<times> backend_call list" where
  "upload_part env method key searchParams request_body =
     (if method = ''OPTIONS'' then (Responded \<lparr>status = 200, body = NoBody\<rparr>, [])
      else if method \<noteq> ''PUT'' then
        (Responded \<lparr>status = 405, body = Text ''Method not allowed''\<rparr>, [])
      else
        let uploadId = map_of searchParams ''uploadId'';
            parsedNumber = parseInt (or_default (map_of searchParams ''partNumber'') ''0'')
        in
        if \<not> truthy uploadId \<or> \<not> truthy_number parsedNumber then
          (Responded \<lparr>status = 400, body = Text ''Missing uploadId or partNumber''\<rparr>, [])
        else
          (case resumeMultipartUpload env (Some key) uploadId of
             Inl m \<Rightarrow>
               (json_response 500 (ErrorJson ''Failed to upload part'' (details_of m)),
                [ResumeMultipartUpload (Some key) uploadId])
           | Inr multipartUpload \<Rightarrow>
               (case request_body of
                  None \<Rightarrow>
                    (json_response 500 (ErrorJson ''Failed to upload part''
                       (details_of ''Request body is required'')),
                     [ResumeMultipartUpload (Some key) uploadId])
                | Some stream \<Rightarrow>
                    (case read_loop stream [] of
                       Inl m \<Rightarrow>
                         (json_response 500 (ErrorJson ''Failed to upload part'' (details_of m)),
                          [ResumeMultipartUpload (Some key) uploadId])
                     | Inr chunks \<Rightarrow>
                         let buffer = concat_chunks chunks in
                         (case uploadPart env (Some key) uploadId parsedNumber buffer of
                            Inl m \<Rightarrow>
                              (json_response 500 (ErrorJson ''Failed to upload part'' (details_of m)),
                               [ResumeMultipartUpload (Some key) uploadId,
                                UploadPart (Some key) uploadId parsedNumber buffer])
                          | Inr part_etag \<Rightarrow>
                              (json_response 200 (PartJson part_etag),
                               [ResumeMultipartUpload (Some key) uploadId,
                                UploadPart (Some key) uploadId parsedNumber buffer]))))))"

section \<open>The driver: \<^verbatim>\<open>handleMultipartUpload\<close>\<close>

text \<open>
  The network as the driver sees it. A \<^verbatim>\<open>fetch\<close> rejects or resolves with a response;
  of a part's response the driver reads \<^verbatim>\<open>ok\<close>, \<^verbatim>\<open>status\<close> and the \<^verbatim>\<open>etag\<close> of its
  JSON body, of the completion's response only \<^verbatim>\<open>ok\<close>, of the abort's nothing.
\<close>

datatype 'a fetched = Rejected string | Resolved 'a

datatype etag_json = JsonFails string | JsonIsNull | JsonWith "string option"

record part_response =
  ok :: bool
  http_status :: nat
  json :: etag_json

record network =
  put_part :: "string \<Rightarrow> int \<Rightarrow> int \<Rightarrow> part_response fetched"
  post_complete :: "string \<Rightarrow> string \<Rightarrow> completed_part list \<Rightarrow> bool fetched"
  post_abort :: "string \<Rightarrow> string \<Rightarrow> unit fetched"

text \<open>The requests the driver sends, in order: a part's URL with the byte range
  \<open>[start, end)\<close> it slices, the completion and the abort.\<close>

datatype driver_call =
    PutPart string int int
  | PostComplete string string "completed_part list"
  | PostAbort string string

fun is_PostComplete :: "driver_call \<Rightarrow> bool" where
  "is_PostComplete (PostComplete f u ps) = True"
| "is_PostComplete (PutPart u s e) = False"
| "is_PostComplete (PostAbort f u) = False"

text \<open>The byte ranges of the slices the driver has sent, in order.\<close>

fun put_range :: "driver_call \<Rightarrow> (int \<times> int) list" where
  "put_range (PutPart u s e) = [(s, e)]"
| "put_range (PostComplete f u ps) = []"
| "put_range (PostAbort f u) = []"

definition sliced_ranges :: "driver_call list \<Rightarrow> (int \<times> int) list" where
  "sliced_ranges cs = concat (map put_range cs)"

fun is_PostAbort :: "driver_call \<Rightarrow> bool" where
  "is_PostAbort (PostAbort f u) = True"
| "is_PostAbort (PutPart u s e) = False"
| "is_PostAbort (PostComplete f u ps) = False"

text \<open>The component's state. The percentage of the progress is a rounded floating-point
  quotient and is left out; \<^verbatim>\<open>loaded\<close> and \<^verbatim>\<open>total\<close> are kept.\<close>

record driver_state =
  uploadedSize :: int
  completedParts :: "completed_part list"
  progress :: "(int \<times> int) option"
  message :: string
  refreshed :: bool
  calls :: "driver_call list"

definition chunkSize :: int where
  "chunkSize = 10 * 1024 * 1024"

text \<open>\<^verbatim>\<open>start\<close> and \<^verbatim>\<open>end\<close> of the slice for a part number.\<close>

definition part_start :: "int \<Rightarrow> int" where
  "part_start pn = (pn - 1) * chunkSize"

definition part_end :: "int \<Rightarrow> int \<Rightarrow> int" where
  "part_end file_size pn = min (part_start pn + chunkSize) file_size"

text \<open>\<^verbatim>\<open>file.slice(start, end).size\<close>: a negative bound counts from the end, both are
  clamped to the file, and an empty or inverted span has size 0.\<close>

definition slice_size :: "int \<Rightarrow> int \<Rightarrow> int \<Rightarrow> int" where
  "slice_size file_size start end' =
     (let relativeStart = (if start < 0 then max (file_size + start) 0 else min start file_size);
          relativeEnd = (if end' < 0 then max (file_size + end') 0 else min end' file_size)
      in max (relativeEnd - relativeStart) 0)"

text \<open>The loop over \<^verbatim>\<open>uploadData.parts\<close>. \<open>Inl\<close> is what the body threw; the loop stops
  there.\<close>

fun upload_parts :: "network \<Rightarrow> int \<Rightarrow> plan_part list \<Rightarrow> driver_state \<Rightarrow> (string + unit) \<times> driver_state" where
  "upload_parts net file_size [] st = (Inr (), st)"
| "upload_parts net file_size (part # rest) st =
     (let start = part_start (partNumber part);
          end' = part_end file_size (partNumber part);
          st1 = st\<lparr>calls := calls st @ [PutPart (url part) start end']\<rparr>
      in
      case put_part net (url part) start end' of
        Rejected m \<Rightarrow> (Inl m, st1)
      | Resolved response \<Rightarrow>
          if \<not> ok response then
            (Inl (''Failed to upload part '' @ string_of_int (partNumber part) @ '' (Status: ''
                    @ string_of_nat (http_status response) @ '')''), st1)
          else
            (case json response of
               JsonFails m \<Rightarrow> (Inl m, st1)
             | JsonIsNull \<Rightarrow> (Inl null_property_message, st1)
             | JsonWith result_etag \<Rightarrow>
                 (case result_etag of
                    None \<Rightarrow> (Inl (''No ETag received for part '' @ string_of_int (partNumber part)), st1)
                  | Some e \<Rightarrow>
                      if e = [] then
                        (Inl (''No ETag received for part '' @ string_of_int (partNumber part)), st1)
                      else
                        upload_parts net file_size rest
                          (st1\<lparr>completedParts :=
                                 completedParts st1 @ [\<lparr>partNumber = partNumber part, etag = e\<rparr>],
                               uploadedSize := uploadedSize st1 + slice_size file_size start end',
                               progress :=
                                 Some (uploadedSize st1 + slice_size file_size start end', file_size)\<rparr>))))"

text \<open>The \<^verbatim>\<open>catch\<close> block: the abort is sent, whatever it answers is ignored.\<close>

definition on_error :: "string \<Rightarrow> string \<Rightarrow> string \<Rightarrow> driver_state \<Rightarrow> driver_state" where
  "on_error file_name uploadId m st =
     st\<lparr>calls := calls st @ [PostAbort file_name uploadId],
        message := ''Upload failed: '' @ m,
        progress := None\<rparr>"

definition initial_state :: driver_state where
  "initial_state =
     \<lparr>uploadedSize = 0, completedParts = [], progress = None,
      message = ''Initiating upload...'', refreshed = False, calls = []\<rparr>"

definition handleMultipartUpload :: "network \<Rightarrow> string \<Rightarrow> int \<Rightarrow> string \<Rightarrow> plan_part list \<Rightarrow> driver_state" where
  "handleMultipartUpload net file_name file_size uploadId parts =
     (case upload_parts net file_size parts initial_state of
        (Inl m, st) \<Rightarrow> on_error file_name uploadId m st
      | (Inr u, st) \<Rightarrow>
          let st1 = st\<lparr>calls := calls st @ [PostComplete file_name uploadId (completedParts st)]\<rparr> in
          (case post_complete net file_name uploadId (completedParts st) of
             Rejected m \<Rightarrow> on_error file_name uploadId m st1
           | Resolved response_ok \<Rightarrow>
               if \<not> response_ok then
                 on_error file_name uploadId ''Failed to complete multipart upload'' st1
               else st1\<lparr>message := ''Upload complete!'', progress := None, refreshed := True\<rparr>))"

text \<open>Whether the upload of one part goes through: the fetch resolves, the response is
  \<^verbatim>\<open>ok\<close> and its JSON carries a non-empty \<^verbatim>\<open>etag\<close>.\<close>

definition part_uploads :: "network \<Rightarrow> int \<Rightarrow> plan_part \<Rightarrow> bool" where
  "part_uploads net file_size part =
     (case put_part net (url part) (part_start (partNumber part)) (part_end file_size (partNumber part)) of
        Rejected m \<Rightarrow> False
      | Resolved response \<Rightarrow>
          ok response \<and> (case json response of JsonWith (Some e) \<Rightarrow> e \<noteq> [] | _ \<Rightarrow> False))"

text \<open>A network on which every request succeeds, and one on which the part with a given
  number answers 500.\<close>

definition ok_network :: network where
  "ok_network =
     \<lparr>put_part = (\<lambda>u s e. Resolved \<lparr>ok = True, http_status = 200, json = JsonWith (Some ''etag'')\<rparr>),
      post_complete = (\<lambda>f u ps. Resolved True),
      post_abort = (\<lambda>f u. Resolved ())\<rparr>"

definition failing_network :: "int \<Rightarrow> network" where
  "failing_network k =
     \<lparr>put_part = (\<lambda>u s e.
        if s = part_start k
        then Resolved \<lparr>ok = False, http_status = 500, json = JsonFails ''no body''\<rparr>
        else Resolved \<lparr>ok = True, http_status = 200, json = JsonWith (Some ''etag'')\<rparr>),
      post_complete = (\<lambda>f u ps. Resolved True),
      post_abort = (\<lambda>f u. Resolved ())\<rparr>"

section \<open>Facts about the part count and the plan\<close>

lemma ceil_div_ceiling: "ceil_div a b = \<lceil>real_of_int a / real_of_int b\<rceil>"
  unfolding ceil_div_def by (simp add: ceiling_divide_eq_div)

lemma plan_loop_numbers:
  "map partNumber (plan_loop origin key uploadId partCount pn parts) = map partNumber parts @ [pn..partCount]"
proof (induction origin key uploadId partCount pn parts rule: plan_loop.induct)
  case (1 origin key uploadId partCount pn parts)
  show ?case
  proof (cases "pn \<le> partCount")
    case True
    then show ?thesis
      using 1 by (subst plan_loop.simps) (simp add: upto_rec1 [of pn partCount])
  next
    case False
    then show ?thesis by (subst plan_loop.simps) simp
  qed
qed

lemma chunk_size_bounds: "MIN_PART_SIZE \<le> CHUNK_SIZE" "0 < CHUNK_SIZE"
  by (simp_all add: MIN_PART_SIZE_def CHUNK_SIZE_def)

lemma ceil_div_bounds:
  assumes "0 < b"
  shows "(ceil_div a b - 1) * b < a" and "a \<le> ceil_div a b * b"
proof -
  have eq: "(- a) div b * b + (- a) mod b = - a" by simp
  have m: "0 \<le> (- a) mod b" "(- a) mod b < b" using assms by simp_all
  have "ceil_div a b * b = a + (- a) mod b"
    unfolding ceil_div_def by (simp add: algebra_simps minus_mod_eq_mult_div [symmetric])
  then show "(ceil_div a b - 1) * b < a" and "a \<le> ceil_div a b * b"
    using m by (simp_all add: algebra_simps)
qed

lemma CHUNK_SIZE_value: "CHUNK_SIZE = 10485760"
  by (simp add: CHUNK_SIZE_def)

lemma part_count_bounds:
  "ceil_div n CHUNK_SIZE * 10485760 < n + 10485760" "n \<le> ceil_div n CHUNK_SIZE * 10485760"
  using ceil_div_bounds [of CHUNK_SIZE n] by (simp_all add: CHUNK_SIZE_value algebra_simps)

lemmas evaluation_simps =
  CHUNK_SIZE_def MIN_PART_SIZE_def MAX_PARTS_def ceil_div_def json_response_def
  string_of_int_def string_of_nat.simps digit_char_def


section \<open>The limit on the number of parts\<close>

text \<open>
  Claim C3. Whenever the computed part count \<open>ceil(fileSize / CHUNK_SIZE)\<close> exceeds
  \<open>MAX_PARTS\<close>, the initiate handler answers 400 with the error \<open>File too large\<close> and
  makes no call on the store, whatever the store would have answered. In particular a
  file of 100 GiB needs 10240 parts and is refused in this way.
\<close>

theorem initiate_too_many_parts:
  "(MAX_PARTS < ceil_div fileSize CHUNK_SIZE \<longrightarrow>
      status_of (fst (initiate_upload env origin (JsonObject (filename, fileSize)))) = Some 400 \<and>
      error_of (fst (initiate_upload env origin (JsonObject (filename, fileSize)))) = Some ''File too large'' \<and>
      snd (initiate_upload env origin (JsonObject (filename, fileSize))) = []) \<and>
   ceil_div (100 * 1024 * 1024 * 1024) CHUNK_SIZE = 10240 \<and>
   initiate_upload env origin (JsonObject (filename, 100 * 1024 * 1024 * 1024)) =
     (json_response 400 (ErrorJson ''File too large''
        ''File would require 10240 parts, but R2 only supports 10000 parts maximum''), [])"
proof -
  have "CHUNK_SIZE < fileSize" if "MAX_PARTS < ceil_div fileSize CHUNK_SIZE"
    using that part_count_bounds [of fileSize] unfolding MAX_PARTS_def by (simp add: CHUNK_SIZE_value)
  then have general: "MAX_PARTS < ceil_div fileSize CHUNK_SIZE \<longrightarrow>
      status_of (fst (initiate_upload env origin (JsonObject (filename, fileSize)))) = Some 400 \<and>
      error_of (fst (initiate_upload env origin (JsonObject (filename, fileSize)))) = Some ''File too large'' \<and>
      snd (initiate_upload env origin (JsonObject (filename, fileSize))) = []"
    using chunk_size_bounds(1) by (simp add: initiate_upload_def Let_def json_response_def)
  have count: "ceil_div (100 * 1024 * 1024 * 1024) CHUNK_SIZE = 10240"
    by (simp add: ceil_div_def CHUNK_SIZE_def)
  have inst: "initiate_upload env origin (JsonObject (filename, 100 * 1024 * 1024 * 1024)) =
     (json_response 400 (ErrorJson ''File too large''
        ''File would require 10240 parts, but R2 only supports 10000 parts maximum''), [])"
    by (simp add: initiate_upload_def evaluation_simps)
  from general count inst show ?thesis by blast
qed

theorem initiate_too_many_parts_witness:
  "MAX_PARTS < ceil_div 107374182400 CHUNK_SIZE \<and>
   status_of (fst (initiate_upload failing_backend ''https://relay'' (JsonObject (''big.bin'', 107374182400)))) = Some 400 \<and>
   snd (initiate_upload failing_backend ''https://relay'' (JsonObject (''big.bin'', 107374182400))) = []"
proof -
  have h: "MAX_PARTS < ceil_div 107374182400 CHUNK_SIZE"
    by (simp add: MAX_PARTS_def ceil_div_def CHUNK_SIZE_def)
  from initiate_too_many_parts [of 107374182400 failing_backend "''https://relay''" "''big.bin''"] h
  show ?thesis by blast
qed


section \<open>The chunk size check\<close>

text \<open>
  Claim C10. The relay's chunk size is at least the minimum part size, and no request,
  with whatever body and store, makes the initiate handler answer with the error
  \<open>Invalid chunk size\<close>.
\<close>

theorem invalid_chunk_size_unreachable:
  "MIN_PART_SIZE \<le> CHUNK_SIZE \<and>
   error_of (fst (initiate_upload env origin request_json)) \<noteq> Some ''Invalid chunk size''"
proof (cases request_json)
  case (JsonObject r)
  obtain filename fileSize where r: "r = (filename, fileSize)" by (cases r)
  show ?thesis
    using chunk_size_bounds(1) unfolding JsonObject r
    by (simp add: initiate_upload_def Let_def json_response_def split: sum.splits)
qed (simp_all add: initiate_upload_def json_response_def chunk_size_bounds)

theorem invalid_chunk_size_unreachable_witness:
  "error_of (fst (initiate_upload ok_backend ''https://relay'' (JsonObject (''a.bin'', 26214400))))
     \<noteq> Some ''Invalid chunk size''"
  using invalid_chunk_size_unreachable [of ok_backend "''https://relay''" "JsonObject (''a.bin'', 26214400)"]
  by blast

section \<open>The plan of the initiate handler\<close>

text \<open>
  Claim C1, as the code has it. A request with \<open>fileSize \<le> CHUNK_SIZE\<close> gets the plan of
  type \<open>simple\<close>, with no parts and no call on the store. A request with
  \<open>fileSize > CHUNK_SIZE\<close> gets the plan of type \<open>multipart\<close>, with exactly
  \<open>ceil(fileSize / CHUNK_SIZE)\<close> parts numbered \<open>1..partCount\<close> in order, provided that part
  count is at most \<open>MAX_PARTS\<close> and the store's \<^verbatim>\<open>createMultipartUpload\<close> returns.
\<close>

theorem initiate_plan:
  "(fileSize \<le> CHUNK_SIZE \<longrightarrow>
      plan_type (fst (initiate_upload env origin (JsonObject (filename, fileSize)))) = Some ''simple'' \<and>
      plan_parts (fst (initiate_upload env origin (JsonObject (filename, fileSize)))) = [] \<and>
      snd (initiate_upload env origin (JsonObject (filename, fileSize))) = []) \<and>
   (CHUNK_SIZE < fileSize \<and> ceil_div fileSize CHUNK_SIZE \<le> MAX_PARTS \<and>
      createMultipartUpload env filename = Inr uploadId \<longrightarrow>
      plan_type (fst (initiate_upload env origin (JsonObject (filename, fileSize)))) = Some ''multipart'' \<and>
      map partNumber (plan_parts (fst (initiate_upload env origin (JsonObject (filename, fileSize))))) =
        [1..ceil_div fileSize CHUNK_SIZE] \<and>
      int (length (plan_parts (fst (initiate_upload env origin (JsonObject (filename, fileSize)))))) =
        \<lceil>real_of_int fileSize / real_of_int CHUNK_SIZE\<rceil>)"
proof (intro conjI impI)
  assume small: "fileSize \<le> CHUNK_SIZE"
  then show "plan_type (fst (initiate_upload env origin (JsonObject (filename, fileSize)))) = Some ''simple''"
    and "plan_parts (fst (initiate_upload env origin (JsonObject (filename, fileSize)))) = []"
    and "snd (initiate_upload env origin (JsonObject (filename, fileSize))) = []"
    by (simp_all add: initiate_upload_def json_response_def)
next
  assume big: "CHUNK_SIZE < fileSize \<and> ceil_div fileSize CHUNK_SIZE \<le> MAX_PARTS \<and>
      createMultipartUpload env filename = Inr uploadId"
  let ?n = "ceil_div fileSize CHUNK_SIZE"
  have result: "fst (initiate_upload env origin (JsonObject (filename, fileSize))) =
      json_response 200 (MultipartJson uploadId (plan_loop origin filename uploadId ?n 1 []) filename)"
    using big chunk_size_bounds(1) by (simp add: initiate_upload_def Let_def)
  show "plan_type (fst (initiate_upload env origin (JsonObject (filename, fileSize)))) = Some ''multipart''"
    unfolding result by (simp add: json_response_def)
  show numbers: "map partNumber (plan_parts (fst (initiate_upload env origin (JsonObject (filename, fileSize))))) = [1..?n]"
    unfolding result by (simp add: json_response_def plan_loop_numbers)
  have "0 \<le> ?n"
    using big part_count_bounds [of fileSize] by (simp add: CHUNK_SIZE_value)
  moreover have "length (map partNumber (plan_parts (fst (initiate_upload env origin (JsonObject (filename, fileSize)))))) = nat ?n"
    unfolding numbers by simp
  ultimately show "int (length (plan_parts (fst (initiate_upload env origin (JsonObject (filename, fileSize)))))) =
        \<lceil>real_of_int fileSize / real_of_int CHUNK_SIZE\<rceil>"
    by (simp add: ceil_div_ceiling [symmetric])
qed

theorem initiate_plan_witness:
  "plan_type (fst (initiate_upload ok_backend ''https://relay'' (JsonObject (''small.bin'', 1048576)))) = Some ''simple'' \<and>
   plan_parts (fst (initiate_upload ok_backend ''https://relay'' (JsonObject (''small.bin'', 1048576)))) = [] \<and>
   plan_type (fst (initiate_upload ok_backend ''https://relay'' (JsonObject (''a.bin'', 26214400)))) = Some ''multipart'' \<and>
   map partNumber (plan_parts (fst (initiate_upload ok_backend ''https://relay'' (JsonObject (''a.bin'', 26214400))))) = [1, 2, 3]"
proof -
  have small: "(1048576::int) \<le> CHUNK_SIZE" by (simp add: CHUNK_SIZE_value)
  have big: "CHUNK_SIZE < 26214400 \<and> ceil_div 26214400 CHUNK_SIZE \<le> MAX_PARTS \<and>
      createMultipartUpload ok_backend ''a.bin'' = Inr ''upload-1''"
    by (simp add: CHUNK_SIZE_value MAX_PARTS_def ceil_div_def ok_backend_def)
  have count: "[1..ceil_div 26214400 CHUNK_SIZE] = [1, 2, 3]"
    by (simp add: CHUNK_SIZE_value ceil_div_def upto_rec1)
  from initiate_plan [of 1048576 ok_backend "''https://relay''" "''small.bin''" "''upload-1''"] small
    initiate_plan [of 26214400 ok_backend "''https://relay''" "''a.bin''" "''upload-1''"] big count
  show ?thesis by simp
qed

theorem initiate_plan_counterexample:
  "CHUNK_SIZE < 107374182400 \<and>
   plan_type (fst (initiate_upload ok_backend ''https://relay'' (JsonObject (''big.bin'', 107374182400)))) \<noteq> Some ''multipart'' \<and>
   plan_parts (fst (initiate_upload ok_backend ''https://relay'' (JsonObject (''big.bin'', 107374182400)))) = [] \<and>
   status_of (fst (initiate_upload ok_backend ''https://relay'' (JsonObject (''big.bin'', 107374182400)))) = Some 400"
  by (simp add: initiate_upload_def CHUNK_SIZE_def MIN_PART_SIZE_def MAX_PARTS_def ceil_div_def json_response_def)

section \<open>The ranges of the part numbers\<close>

lemma chunkSize_value: "chunkSize = 10485760"
  by (simp add: chunkSize_def)

lemma chunk_sizes_agree: "chunkSize = CHUNK_SIZE"
  by (simp add: chunkSize_def CHUNK_SIZE_def)

lemma part_count_bounds_driver:
  "ceil_div n chunkSize * 10485760 < n + 10485760" "n \<le> ceil_div n chunkSize * 10485760"
  using part_count_bounds [of n] by (simp_all add: chunkSize_value CHUNK_SIZE_value)

text \<open>The ranges of the part numbers \<open>1..partCount\<close> tile the file.\<close>

lemma part_ranges_tile:
  assumes "chunkSize < fileSize" and "partCount = ceil_div fileSize chunkSize"
  shows "part_start 1 = 0 \<and>
    (\<forall>k. 1 \<le> k \<and> k < partCount \<longrightarrow> part_end fileSize k = part_start (k + 1)) \<and>
    (\<forall>k. 1 \<le> k \<and> k \<le> partCount \<longrightarrow> part_start k < part_end fileSize k) \<and>
    (\<forall>j k. 1 \<le> j \<and> j < k \<and> k \<le> partCount \<longrightarrow> part_end fileSize j \<le> part_start k) \<and>
    part_end fileSize partCount = fileSize \<and>
    part_end fileSize partCount - part_start partCount = fileSize - (partCount - 1) * chunkSize \<and>
    (\<forall>b. (0 \<le> b \<and> b < fileSize) =
       (\<exists>k. 1 \<le> k \<and> k \<le> partCount \<and> part_start k \<le> b \<and> b < part_end fileSize k))"
proof -
  have lo: "partCount * 10485760 < fileSize + 10485760"
    and hi: "fileSize \<le> partCount * 10485760"
    using part_count_bounds_driver [of fileSize] assms(2) by simp_all
  have big: "10485760 < fileSize" using assms(1) by (simp add: chunkSize_value)
  have start: "part_start k = k * 10485760 - 10485760" for k
    by (simp add: part_start_def chunkSize_value algebra_simps)
  have inner: "part_end fileSize k = k * 10485760" if "k < partCount" for k
    using that lo by (simp add: part_end_def start chunkSize_value)
  have final: "part_end fileSize partCount = fileSize"
    using hi by (simp add: part_end_def start chunkSize_value)
  have c1: "part_start 1 = 0" by (simp add: start)
  have c2: "\<forall>k. 1 \<le> k \<and> k < partCount \<longrightarrow> part_end fileSize k = part_start (k + 1)"
    by (simp add: inner start)
  have c3: "\<forall>k. 1 \<le> k \<and> k \<le> partCount \<longrightarrow> part_start k < part_end fileSize k"
  proof (intro allI impI)
    fix k assume k: "1 \<le> k \<and> k \<le> partCount"
    show "part_start k < part_end fileSize k"
    proof (cases "k < partCount")
      case True
      then show ?thesis by (simp add: inner start)
    next
      case False
      with k have "k = partCount" by simp
      then show ?thesis using lo by (simp add: final start)
    qed
  qed
  have c4: "\<forall>j k. 1 \<le> j \<and> j < k \<and> k \<le> partCount \<longrightarrow> part_end fileSize j \<le> part_start k"
  proof (intro allI impI)
    fix j k assume jk: "1 \<le> j \<and> j < k \<and> k \<le> partCount"
    then have "j < partCount" by simp
    then show "part_end fileSize j \<le> part_start k"
      using jk by (simp add: inner start)
  qed
  have c6: "part_end fileSize partCount - part_start partCount = fileSize - (partCount - 1) * chunkSize"
    by (simp add: final part_start_def)
  have c7: "\<forall>b. (0 \<le> b \<and> b < fileSize) =
       (\<exists>k. 1 \<le> k \<and> k \<le> partCount \<and> part_start k \<le> b \<and> b < part_end fileSize k)"
  proof (intro allI iffI)
    fix b assume b: "0 \<le> b \<and> b < fileSize"
    define k where "k = b div 10485760 + 1"
    have kb: "k * 10485760 - 10485760 \<le> b" "b < k * 10485760"
      unfolding k_def by simp_all
    have k1: "1 \<le> k" using b unfolding k_def by (simp add: pos_imp_zdiv_nonneg_iff)
    have kn: "k \<le> partCount" using kb(1) b hi by simp
    have "b < part_end fileSize k"
    proof (cases "k < partCount")
      case True
      then show ?thesis using kb by (simp add: inner)
    next
      case False
      with kn have "k = partCount" by simp
      then show ?thesis using b by (simp add: final)
    qed
    with k1 kn kb show "\<exists>k. 1 \<le> k \<and> k \<le> partCount \<and> part_start k \<le> b \<and> b < part_end fileSize k"
      by (auto simp: start)
  next
    fix b assume "\<exists>k. 1 \<le> k \<and> k \<le> partCount \<and> part_start k \<le> b \<and> b < part_end fileSize k"
    then obtain k where k: "1 \<le> k" "k \<le> partCount" "part_start k \<le> b" "b < part_end fileSize k"
      by blast
    have "part_end fileSize k \<le> fileSize" by (simp add: part_end_def)
    moreover have "0 \<le> part_start k" using k(1) by (simp add: start)
    ultimately show "0 \<le> b \<and> b < fileSize" using k by simp
  qed
  from c1 c2 c3 c4 final c6 c7 show ?thesis by blast
qed


section \<open>The driver's loop and its failure path\<close>

lemma upload_parts_calls:
  "filter is_PostAbort (calls (snd (upload_parts net fs ps st))) = filter is_PostAbort (calls st) \<and>
   filter is_PostComplete (calls (snd (upload_parts net fs ps st))) = filter is_PostComplete (calls st) \<and>
   refreshed (snd (upload_parts net fs ps st)) = refreshed st"
  by (induction ps arbitrary: st)
     (simp_all add: Let_def split: fetched.splits etag_json.splits option.splits)

lemma upload_parts_throws:
  "p \<in> set ps \<Longrightarrow> \<not> part_uploads net fs p \<Longrightarrow> \<exists>m. fst (upload_parts net fs ps st) = Inl m"
proof (induction ps arbitrary: st)
  case Nil
  then show ?case by simp
next
  case (Cons q ps)
  show ?case
  proof (cases "part_uploads net fs q")
    case True
    with Cons.prems have "p \<in> set ps" by auto
    from Cons.IH [OF this Cons.prems(2)] True show ?thesis
      by (auto simp: part_uploads_def Let_def split: fetched.splits etag_json.splits option.splits)
  next
    case False
    then show ?thesis
      by (auto simp: part_uploads_def Let_def split: fetched.splits etag_json.splits option.splits)
  qed
qed

lemma upload_parts_succeeds:
  "list_all (part_uploads net fs) ps \<Longrightarrow>
     fst (upload_parts net fs ps st) = Inr () \<and>
     map partNumber (completedParts (snd (upload_parts net fs ps st))) =
       map partNumber (completedParts st) @ map partNumber ps \<and>
     calls (snd (upload_parts net fs ps st)) =
       calls st @ map (\<lambda>p. PutPart (url p) (part_start (partNumber p)) (part_end fs (partNumber p))) ps"
proof (induction ps arbitrary: st)
  case Nil
  then show ?case by simp
next
  case (Cons q ps)
  from Cons.prems have q: "part_uploads net fs q" and rest: "list_all (part_uploads net fs) ps"
    by simp_all
  from q obtain r e where r: "put_part net (url q) (part_start (partNumber q)) (part_end fs (partNumber q)) = Resolved r"
      "ok r" "json r = JsonWith (Some e)" "e \<noteq> []"
    by (auto simp: part_uploads_def split: fetched.splits etag_json.splits option.splits)
  show ?case
    using Cons.IH [OF rest] r by (simp add: Let_def)
qed

text \<open>
  Claim C5. In a run in which the upload of some planned part fails (the fetch rejects, the
  response is not \<^verbatim>\<open>ok\<close>, or its JSON carries no ETag), the driver sends the abort for
  the file and upload id of the run, exactly once and as its last request, and never
  sends the completion; the completion callback is not run.
\<close>

theorem failed_part_aborts:
  assumes "p \<in> set parts" and "\<not> part_uploads net file_size p"
  shows "filter is_PostAbort (calls (handleMultipartUpload net file_name file_size uploadId parts)) =
           [PostAbort file_name uploadId] \<and>
         filter is_PostComplete (calls (handleMultipartUpload net file_name file_size uploadId parts)) = [] \<and>
         last (calls (handleMultipartUpload net file_name file_size uploadId parts)) = PostAbort file_name uploadId \<and>
         \<not> refreshed (handleMultipartUpload net file_name file_size uploadId parts)"
proof -
  obtain m where m: "fst (upload_parts net file_size parts initial_state) = Inl m"
    using upload_parts_throws [OF assms] by blast
  obtain st where st: "upload_parts net file_size parts initial_state = (Inl m, st)"
    using m by (cases "upload_parts net file_size parts initial_state") simp
  have result: "handleMultipartUpload net file_name file_size uploadId parts = on_error file_name uploadId m st"
    by (simp add: handleMultipartUpload_def st)
  have trace: "filter is_PostAbort (calls st) = []" "filter is_PostComplete (calls st) = []" "\<not> refreshed st"
    using upload_parts_calls [of net file_size parts initial_state] st
    by (simp_all add: initial_state_def)
  show ?thesis
    unfolding result using trace by (simp add: on_error_def)
qed

theorem failed_part_aborts_witness:
  "\<not> part_uploads (failing_network 2) 26214400 \<lparr>partNumber = 2, url = ''u2''\<rparr> \<and>
   filter is_PostAbort (calls (handleMultipartUpload (failing_network 2) ''a.bin'' 26214400 ''upload-1''
      [\<lparr>partNumber = 1, url = ''u1''\<rparr>, \<lparr>partNumber = 2, url = ''u2''\<rparr>, \<lparr>partNumber = 3, url = ''u3''\<rparr>])) =
     [PostAbort ''a.bin'' ''upload-1''] \<and>
   filter is_PostComplete (calls (handleMultipartUpload (failing_network 2) ''a.bin'' 26214400 ''upload-1''
      [\<lparr>partNumber = 1, url = ''u1''\<rparr>, \<lparr>partNumber = 2, url = ''u2''\<rparr>, \<lparr>partNumber = 3, url = ''u3''\<rparr>])) = [] \<and>
   calls (handleMultipartUpload (failing_network 2) ''a.bin'' 26214400 ''upload-1''
      [\<lparr>partNumber = 1, url = ''u1''\<rparr>, \<lparr>partNumber = 2, url = ''u2''\<rparr>, \<lparr>partNumber = 3, url = ''u3''\<rparr>]) =
     [PutPart ''u1'' 0 10485760, PutPart ''u2'' 10485760 20971520, PostAbort ''a.bin'' ''upload-1''] \<and>
   message (handleMultipartUpload (failing_network 2) ''a.bin'' 26214400 ''upload-1''
      [\<lparr>partNumber = 1, url = ''u1''\<rparr>, \<lparr>partNumber = 2, url = ''u2''\<rparr>, \<lparr>partNumber = 3, url = ''u3''\<rparr>]) =
     ''Upload failed: Failed to upload part 2 (Status: 500)''"
proof -
  let ?parts = "[\<lparr>partNumber = 1, url = ''u1''\<rparr>, \<lparr>partNumber = 2, url = ''u2''\<rparr>, \<lparr>partNumber = 3, url = ''u3''\<rparr>]"
  have member: "\<lparr>partNumber = 2, url = ''u2''\<rparr> \<in> set ?parts" by simp
  have fails: "\<not> part_uploads (failing_network 2) 26214400 \<lparr>partNumber = 2, url = ''u2''\<rparr>"
    by (simp add: part_uploads_def failing_network_def)
  have trace: "calls (handleMultipartUpload (failing_network 2) ''a.bin'' 26214400 ''upload-1'' ?parts) =
     [PutPart ''u1'' 0 10485760, PutPart ''u2'' 10485760 20971520, PostAbort ''a.bin'' ''upload-1'']"
    by (simp add: handleMultipartUpload_def initial_state_def failing_network_def on_error_def Let_def
        part_start_def part_end_def chunkSize_def slice_size_def)
  have shown: "message (handleMultipartUpload (failing_network 2) ''a.bin'' 26214400 ''upload-1'' ?parts) =
     ''Upload failed: Failed to upload part 2 (Status: 500)''"
    by (simp add: handleMultipartUpload_def initial_state_def failing_network_def on_error_def Let_def
        part_start_def part_end_def chunkSize_def slice_size_def
        string_of_int_def string_of_nat.simps digit_char_def)
  from failed_part_aborts [OF member fails, of "''a.bin''" "''upload-1''"] fails trace shown
  show ?thesis by simp
qed

section \<open>The byte ranges the driver slices\<close>

lemma sliced_ranges_append: "sliced_ranges (xs @ ys) = sliced_ranges xs @ sliced_ranges ys"
  by (simp add: sliced_ranges_def)

lemma sliced_ranges_puts:
  "sliced_ranges (map (\<lambda>p. PutPart (url p) (part_start (partNumber p)) (part_end fs (partNumber p))) ps) =
     map (\<lambda>p. (part_start (partNumber p), part_end fs (partNumber p))) ps"
  by (induction ps) (simp_all add: sliced_ranges_def)

lemma upload_parts_slices:
  "\<exists>m. m \<le> length ps \<and> (ps \<noteq> [] \<longrightarrow> 0 < m) \<and>
     sliced_ranges (calls (snd (upload_parts net fs ps st))) =
       sliced_ranges (calls st) @
         take m (map (\<lambda>p. (part_start (partNumber p), part_end fs (partNumber p))) ps)"
proof (induction ps arbitrary: st)
  case Nil
  then show ?case by simp
next
  case (Cons q ps)
  let ?r = "(part_start (partNumber q), part_end fs (partNumber q))"
  let ?st1 = "st\<lparr>calls := calls st @ [PutPart (url q) (part_start (partNumber q)) (part_end fs (partNumber q))]\<rparr>"
  have first: "sliced_ranges (calls ?st1) = sliced_ranges (calls st) @ [?r]"
    by (simp add: sliced_ranges_def)
  show ?case
  proof (cases "part_uploads net fs q")
    case False
    then have "snd (upload_parts net fs (q # ps) st) = ?st1"
      by (auto simp: part_uploads_def Let_def split: fetched.splits etag_json.splits option.splits)
    then have "sliced_ranges (calls (snd (upload_parts net fs (q # ps) st))) =
        sliced_ranges (calls st) @
          take 1 (map (\<lambda>p. (part_start (partNumber p), part_end fs (partNumber p))) (q # ps))"
      using first by simp
    then show ?thesis by (intro exI [of _ 1]) simp
  next
    case True
    then obtain r e where r: "put_part net (url q) (part_start (partNumber q)) (part_end fs (partNumber q)) = Resolved r"
        "ok r" "json r = JsonWith (Some e)" "e \<noteq> []"
      by (auto simp: part_uploads_def split: fetched.splits etag_json.splits option.splits)
    define st2 where "st2 = ?st1\<lparr>completedParts := completedParts ?st1 @ [\<lparr>partNumber = partNumber q, etag = e\<rparr>],
        uploadedSize := uploadedSize ?st1 + slice_size fs (part_start (partNumber q)) (part_end fs (partNumber q)),
        progress := Some (uploadedSize ?st1 + slice_size fs (part_start (partNumber q)) (part_end fs (partNumber q)), fs)\<rparr>"
    have step: "upload_parts net fs (q # ps) st = upload_parts net fs ps st2"
      using r by (simp add: Let_def st2_def)
    have calls2: "sliced_ranges (calls st2) = sliced_ranges (calls st) @ [?r]"
      using first by (simp add: st2_def)
    from Cons.IH [of st2] obtain m where m: "m \<le> length ps"
      "sliced_ranges (calls (snd (upload_parts net fs ps st2))) =
         sliced_ranges (calls st2) @
           take m (map (\<lambda>p. (part_start (partNumber p), part_end fs (partNumber p))) ps)"
      by blast
    have "sliced_ranges (calls (snd (upload_parts net fs (q # ps) st))) =
        sliced_ranges (calls st) @
          take (Suc m) (map (\<lambda>p. (part_start (partNumber p), part_end fs (partNumber p))) (q # ps))"
      unfolding step m(2) calls2 by simp
    with m(1) show ?thesis by (intro exI [of _ "Suc m"]) simp
  qed
qed

lemma handleMultipartUpload_slices:
  "sliced_ranges (calls (handleMultipartUpload net file_name fs uploadId ps)) =
     sliced_ranges (calls (snd (upload_parts net fs ps initial_state)))"
  by (cases "upload_parts net fs ps initial_state")
     (auto simp: handleMultipartUpload_def on_error_def Let_def sliced_ranges_def
        split: sum.splits fetched.splits)

lemma initiate_multipart_plan:
  assumes "CHUNK_SIZE < fileSize" and "ceil_div fileSize CHUNK_SIZE \<le> MAX_PARTS"
    and "createMultipartUpload env filename = Inr uploadId"
  shows "map partNumber (plan_parts (fst (initiate_upload env origin (JsonObject (filename, fileSize))))) =
    [1..ceil_div fileSize CHUNK_SIZE]"
  using assms chunk_size_bounds(1)
  by (simp add: initiate_upload_def Let_def json_response_def plan_loop_numbers)

lemma planned_nth:
  "i < nat n \<Longrightarrow> map f [1..n] ! i = f (1 + int i)"
  by simp

text \<open>
  Claim C2. Take a file larger than the chunk size, the plan the relay returns for it, and
  the run of the driver on that plan, on any network. The byte ranges the driver slices,
  in the order it sends them, are the first ranges
  \<open>[(k - 1) * chunkSize, min (k * chunkSize) fileSize)\<close> of the part numbers \<open>k = 1, 2, ...\<close>:
  they start at 0, each ends where the next starts, each is non-empty and an earlier one
  ends before a later one starts. When every part uploads they are the ranges of all part
  numbers \<open>1..partCount\<close>: there are \<open>partCount\<close> of them, the last ends at \<open>fileSize\<close> and
  has length \<open>fileSize - (partCount - 1) * chunkSize\<close>, and a byte offset lies in
  \<open>[0, fileSize)\<close> exactly when it lies in one of them.
\<close>

theorem driver_slices_cover:
  assumes "chunkSize < fileSize"
    and "ceil_div fileSize CHUNK_SIZE \<le> MAX_PARTS"
    and "createMultipartUpload env file_name = Inr uploadId"
    and "parts = plan_parts (fst (initiate_upload env origin (JsonObject (file_name, fileSize))))"
    and "partCount = ceil_div fileSize chunkSize"
    and "rs = sliced_ranges (calls (handleMultipartUpload net file_name fileSize uploadId parts))"
  shows "rs = take (length rs) (map (\<lambda>k. (part_start k, part_end fileSize k)) [1..partCount]) \<and>
    0 < length rs \<and>
    fst (hd rs) = 0 \<and>
    (\<forall>i. Suc i < length rs \<longrightarrow> snd (rs ! i) = fst (rs ! Suc i)) \<and>
    (\<forall>i. i < length rs \<longrightarrow> fst (rs ! i) < snd (rs ! i)) \<and>
    (\<forall>i j. i < j \<and> j < length rs \<longrightarrow> snd (rs ! i) \<le> fst (rs ! j)) \<and>
    (list_all (part_uploads net fileSize) parts \<longrightarrow>
       rs = map (\<lambda>k. (part_start k, part_end fileSize k)) [1..partCount] \<and>
       int (length rs) = partCount \<and>
       snd (last rs) = fileSize \<and>
       snd (last rs) - fst (last rs) = fileSize - (partCount - 1) * chunkSize \<and>
       (\<forall>b. (0 \<le> b \<and> b < fileSize) = (\<exists>r \<in> set rs. fst r \<le> b \<and> b < snd r)))"
proof -
  let ?f = "\<lambda>k. (part_start k, part_end fileSize k)"
  let ?P = "map ?f [1..partCount]"
  note tile = part_ranges_tile [OF assms(1) assms(5)]
  have count: "partCount = ceil_div fileSize CHUNK_SIZE"
    using assms(5) by (simp add: chunk_sizes_agree)
  have big: "CHUNK_SIZE < fileSize"
    using assms(1) by (simp add: chunk_sizes_agree)
  have positive: "1 \<le> partCount"
    using part_count_bounds_driver [of fileSize] assms(1,5) by (simp add: chunkSize_value)
  have numbers: "map partNumber parts = [1..partCount]"
    unfolding assms(4) count by (rule initiate_multipart_plan [OF big assms(2) assms(3)])
  have planned: "map (\<lambda>p. (part_start (partNumber p), part_end fileSize (partNumber p))) parts = ?P"
  proof -
    have "map (\<lambda>p. (part_start (partNumber p), part_end fileSize (partNumber p))) parts =
        map ?f (map partNumber parts)"
      by (simp add: comp_def)
    then show ?thesis by (simp add: numbers)
  qed
  have length_P: "length ?P = nat partCount" by simp
  have length_parts: "length parts = nat partCount"
    using arg_cong [OF numbers, of length] by simp
  have nonempty: "parts \<noteq> []" using length_parts positive by auto
  have run: "rs = sliced_ranges (calls (snd (upload_parts net fileSize parts initial_state)))"
    unfolding assms(6) by (rule handleMultipartUpload_slices)
  obtain m where m: "m \<le> length parts" "0 < m" and rs: "rs = take m ?P"
    using upload_parts_slices [of parts net fileSize initial_state] nonempty
    unfolding run planned by (auto simp: initial_state_def sliced_ranges_def)
  have length_rs: "length rs = m"
    using m(1) length_parts by (simp add: rs)
  have nth: "rs ! i = ?f (1 + int i)" if "i < m" for i
  proof -
    have "i < nat partCount" using that m(1) length_parts by simp
    then have "?P ! i = ?f (1 + int i)" by (rule planned_nth)
    then show ?thesis using that by (simp add: rs)
  qed
  have in_count: "1 + int i \<le> partCount" if "i < m" for i
    using that m(1) length_parts by simp
  have c1: "rs = take (length rs) ?P" unfolding length_rs by (rule rs)
  have c2: "0 < length rs" by (simp add: length_rs m(2))
  have c3: "fst (hd rs) = 0"
  proof -
    have "rs \<noteq> []" using c2 by auto
    then have "hd rs = rs ! 0" by (simp add: hd_conv_nth)
    then show ?thesis using nth [of 0] m(2) tile by simp
  qed
  have c4: "\<forall>i. Suc i < length rs \<longrightarrow> snd (rs ! i) = fst (rs ! Suc i)"
  proof (intro allI impI)
    fix i assume i: "Suc i < length rs"
    then have "1 \<le> 1 + int i \<and> 1 + int i < partCount"
      using in_count [of "Suc i"] by (simp add: length_rs)
    with tile have "part_end fileSize (1 + int i) = part_start (1 + int i + 1)" by blast
    then show "snd (rs ! i) = fst (rs ! Suc i)"
      using i nth [of i] nth [of "Suc i"] by (simp add: length_rs add.commute)
  qed
  have c5: "\<forall>i. i < length rs \<longrightarrow> fst (rs ! i) < snd (rs ! i)"
  proof (intro allI impI)
    fix i assume i: "i < length rs"
    then have "1 \<le> 1 + int i \<and> 1 + int i \<le> partCount"
      using in_count [of i] by (simp add: length_rs)
    with tile have "part_start (1 + int i) < part_end fileSize (1 + int i)" by blast
    then show "fst (rs ! i) < snd (rs ! i)"
      using i nth [of i] by (simp add: length_rs)
  qed
  have c6: "\<forall>i j. i < j \<and> j < length rs \<longrightarrow> snd (rs ! i) \<le> fst (rs ! j)"
  proof (intro allI impI)
    fix i j assume ij: "i < j \<and> j < length rs"
    then have "1 \<le> 1 + int i \<and> 1 + int i < 1 + int j \<and> 1 + int j \<le> partCount"
      using in_count [of j] by (simp add: length_rs)
    with tile have "part_end fileSize (1 + int i) \<le> part_start (1 + int j)" by blast
    then show "snd (rs ! i) \<le> fst (rs ! j)"
      using ij nth [of i] nth [of j] by (simp add: length_rs)
  qed
  have c7: "list_all (part_uploads net fileSize) parts \<longrightarrow>
       rs = ?P \<and>
       int (length rs) = partCount \<and>
       snd (last rs) = fileSize \<and>
       snd (last rs) - fst (last rs) = fileSize - (partCount - 1) * chunkSize \<and>
       (\<forall>b. (0 \<le> b \<and> b < fileSize) = (\<exists>r \<in> set rs. fst r \<le> b \<and> b < snd r))"
  proof
    assume all: "list_all (part_uploads net fileSize) parts"
    have "calls (snd (upload_parts net fileSize parts initial_state)) =
        calls initial_state @
          map (\<lambda>p. PutPart (url p) (part_start (partNumber p)) (part_end fileSize (partNumber p))) parts"
      using upload_parts_succeeds [OF all, of initial_state] by simp
    then have whole: "rs = ?P"
      unfolding run by (simp add: sliced_ranges_append sliced_ranges_puts planned)
         (simp add: initial_state_def sliced_ranges_def)
    have len: "int (length rs) = partCount"
      using positive by (simp add: whole)
    have last_rs: "last rs = ?f partCount"
    proof -
      have "[1..partCount] \<noteq> []" using positive by simp
      then have "last ?P = ?f (last [1..partCount])" by (simp add: last_map)
      moreover have "last [1..partCount] = partCount"
        using positive by (simp add: upto_rec2)
      ultimately show ?thesis by (simp add: whole)
    qed
    have set_rs: "set rs = ?f ` {1..partCount}" by (simp add: whole)
    have cover: "\<forall>b. (0 \<le> b \<and> b < fileSize) = (\<exists>r \<in> set rs. fst r \<le> b \<and> b < snd r)"
    proof
      fix b
      have "(\<exists>r \<in> set rs. fst r \<le> b \<and> b < snd r) =
          (\<exists>k. 1 \<le> k \<and> k \<le> partCount \<and> part_start k \<le> b \<and> b < part_end fileSize k)"
        unfolding set_rs by auto
      with tile show "(0 \<le> b \<and> b < fileSize) = (\<exists>r \<in> set rs. fst r \<le> b \<and> b < snd r)"
        by simp
    qed
    from whole len last_rs tile cover
    show "rs = ?P \<and>
       int (length rs) = partCount \<and>
       snd (last rs) = fileSize \<and>
       snd (last rs) - fst (last rs) = fileSize - (partCount - 1) * chunkSize \<and>
       (\<forall>b. (0 \<le> b \<and> b < fileSize) = (\<exists>r \<in> set rs. fst r \<le> b \<and> b < snd r))"
      by simp
  qed
  from c1 c2 c3 c4 c5 c6 c7 show ?thesis by blast
qed

theorem driver_slices_cover_witness:
  "chunkSize < 26214400 \<and>
   list_all (part_uploads ok_network 26214400)
     (plan_parts (fst (initiate_upload ok_backend ''https://relay'' (JsonObject (''a.bin'', 26214400))))) \<and>
   sliced_ranges (calls (handleMultipartUpload ok_network ''a.bin'' 26214400 ''upload-1''
     (plan_parts (fst (initiate_upload ok_backend ''https://relay'' (JsonObject (''a.bin'', 26214400))))))) =
     [(0, 10485760), (10485760, 20971520), (20971520, 26214400)] \<and>
   snd (last (sliced_ranges (calls (handleMultipartUpload ok_network ''a.bin'' 26214400 ''upload-1''
     (plan_parts (fst (initiate_upload ok_backend ''https://relay'' (JsonObject (''a.bin'', 26214400))))))))) =
     26214400"
proof -
  let ?parts = "plan_parts (fst (initiate_upload ok_backend ''https://relay'' (JsonObject (''a.bin'', 26214400))))"
  have h1: "chunkSize < 26214400" by (simp add: chunkSize_def)
  have h2: "ceil_div 26214400 CHUNK_SIZE \<le> MAX_PARTS"
    by (simp add: CHUNK_SIZE_def MAX_PARTS_def ceil_div_def)
  have h3: "createMultipartUpload ok_backend ''a.bin'' = Inr ''upload-1''"
    by (simp add: ok_backend_def)
  have "part_uploads ok_network 26214400 = (\<lambda>p. True)"
    by (intro ext) (simp add: part_uploads_def ok_network_def)
  then have uploads: "list_all (part_uploads ok_network 26214400) ?parts"
    by (simp add: list_all_iff)
  have ranges: "map (\<lambda>k. (part_start k, part_end 26214400 k)) [1..ceil_div 26214400 chunkSize] =
      [(0, 10485760), (10485760, 20971520), (20971520, 26214400)]"
    by (simp add: chunkSize_def ceil_div_def upto_rec1 part_start_def part_end_def)
  from driver_slices_cover [OF h1 h2 h3 refl refl refl, where origin = "''https://relay''" and net = ok_network] uploads ranges h1
  show ?thesis by simp
qed

section \<open>The completion handler\<close>

lemma insert_by_difference: "insert_by (\<lambda>a b. f a - f b) x ys = insort_key f x ys"
  by (induction ys) simp_all

lemma sort_parts_sort_key: "sort_parts ps = sort_key partNumber ps"
proof -
  have "insert_by (\<lambda>a b. partNumber a - partNumber b) =
      (insort_key partNumber :: completed_part \<Rightarrow> completed_part list \<Rightarrow> completed_part list)"
    by (intro ext) (rule insert_by_difference)
  then show ?thesis
    by (simp add: sort_parts_def array_sort_def sort_key_def)
qed

lemma sort_parts_sorted: "sorted (map partNumber (sort_parts ps))"
  by (simp add: sort_parts_sort_key)

lemma sort_parts_mset: "mset (sort_parts ps) = mset ps"
  by (simp add: sort_parts_sort_key)

lemma sort_parts_stable:
  "filter (\<lambda>p. partNumber p = k) (sort_parts ps) = filter (\<lambda>p. partNumber p = k) ps"
  by (simp add: sort_parts_sort_key sort_key_stable)

lemma complete_calls_sorted:
  "Complete f u ps \<in> set (snd (complete_multipart env request_json)) \<Longrightarrow> sorted (map partNumber ps)"
  by (auto simp: complete_multipart_def complete_sorted_def complete_other_sorted_def
        json_response_def sort_parts_sorted
      split: req_body.splits if_splits parts_field.splits sum.splits option.splits)

text \<open>
  Claim C4. Whatever the request, every list of parts that the completion handler passes to
  the store's \<^verbatim>\<open>complete\<close> is sorted ascending by part number. For a request with a
  non-empty file name and upload id and any list of parts, in any order, on a store that
  resumes the upload, the handler calls \<^verbatim>\<open>complete\<close> with the stable sort of the
  submitted list: sorted by part number and with the same parts. Parts submitted in the
  order 3, 1, 2 are passed on as 1, 2, 3.
\<close>

theorem completion_parts_sorted:
  "(Complete f u ps \<in> set (snd (complete_multipart env request_json)) \<longrightarrow> sorted (map partNumber ps)) \<and>
   (truthy filename \<and> truthy uploadId \<and> resumeMultipartUpload env filename uploadId = Inr () \<longrightarrow>
      snd (complete_multipart env (JsonObject (filename, uploadId, PartsArray parts))) =
        [ResumeMultipartUpload filename uploadId, Complete filename uploadId (sort_parts parts)] \<and>
      sorted (map partNumber (sort_parts parts)) \<and>
      mset (sort_parts parts) = mset parts)"
proof (intro conjI impI)
  show "sorted (map partNumber ps)" if "Complete f u ps \<in> set (snd (complete_multipart env request_json))"
    using that by (rule complete_calls_sorted)
next
  assume valid: "truthy filename \<and> truthy uploadId \<and> resumeMultipartUpload env filename uploadId = Inr ()"
  then show "snd (complete_multipart env (JsonObject (filename, uploadId, PartsArray parts))) =
        [ResumeMultipartUpload filename uploadId, Complete filename uploadId (sort_parts parts)]"
    by (simp add: complete_multipart_def complete_sorted_def split: sum.splits)
  show "sorted (map partNumber (sort_parts parts))" by (rule sort_parts_sorted)
  show "mset (sort_parts parts) = mset parts" by (rule sort_parts_mset)
qed

theorem completion_parts_sorted_witness:
  "snd (complete_multipart ok_backend (JsonObject (Some ''a.bin'', Some ''upload-1'',
      PartsArray [\<lparr>partNumber = 3, etag = ''e3''\<rparr>, \<lparr>partNumber = 1, etag = ''e1''\<rparr>, \<lparr>partNumber = 2, etag = ''e2''\<rparr>]))) =
     [ResumeMultipartUpload (Some ''a.bin'') (Some ''upload-1''),
      Complete (Some ''a.bin'') (Some ''upload-1'')
        [\<lparr>partNumber = 1, etag = ''e1''\<rparr>, \<lparr>partNumber = 2, etag = ''e2''\<rparr>, \<lparr>partNumber = 3, etag = ''e3''\<rparr>]] \<and>
   sorted (map partNumber (sort_parts
      [\<lparr>partNumber = 3, etag = ''e3''\<rparr>, \<lparr>partNumber = 1, etag = ''e1''\<rparr>, \<lparr>partNumber = 2, etag = ''e2''\<rparr>]))"
proof -
  have valid: "truthy (Some ''a.bin'') \<and> truthy (Some ''upload-1'') \<and>
      resumeMultipartUpload ok_backend (Some ''a.bin'') (Some ''upload-1'') = Inr ()"
    by (simp add: ok_backend_def)
  have sorted: "sort_parts [\<lparr>partNumber = 3, etag = ''e3''\<rparr>, \<lparr>partNumber = 1, etag = ''e1''\<rparr>, \<lparr>partNumber = 2, etag = ''e2''\<rparr>] =
      [\<lparr>partNumber = 1, etag = ''e1''\<rparr>, \<lparr>partNumber = 2, etag = ''e2''\<rparr>, \<lparr>partNumber = 3, etag = ''e3''\<rparr>]"
    by (simp add: sort_parts_def array_sort_def)
  from completion_parts_sorted [of _ _ _ ok_backend _ "Some ''a.bin''" "Some ''upload-1''"
      "[\<lparr>partNumber = 3, etag = ''e3''\<rparr>, \<lparr>partNumber = 1, etag = ''e1''\<rparr>, \<lparr>partNumber = 2, etag = ''e2''\<rparr>]"]
    valid sorted
  show ?thesis by simp
qed

lemma parts_of_PartValue: "parts_of (map PartValue ps) = Some ps"
  by (induction ps) simp_all

lemma parts_of_Some: "parts_of vs = Some ps \<Longrightarrow> vs = map PartValue ps"
proof (induction vs arbitrary: ps)
  case Nil
  then show ?case by simp
next
  case (Cons v vs)
  then show ?case by (cases v) (auto split: option.splits)
qed

text \<open>
  Claim C8, as the code has it. For a completion request whose body is a JSON object: when
  the file name or the upload id is missing or empty, or the parts are missing or not a
  list, the answer is 400 and no call is made on the store. When the file name and the
  upload id are non-empty and the parts are a list, the handler sorts the list and goes on
  to the store, \<^verbatim>\<open>resumeMultipartUpload\<close> and, when that returns, \<^verbatim>\<open>complete\<close> with the
  sorted list, unless the sort throws, which it does on a list of two or more elements
  with a \<^verbatim>\<open>null\<close>, or a value whose part number cannot be converted to a number, among
  them: then the answer is 500 and no call is made on the store.
  A file name that is present but empty is refused with 400.
\<close>

theorem complete_validation:
  "(\<not> truthy filename \<or> \<not> truthy uploadId \<or> \<not> isArray parts \<longrightarrow>
      complete_multipart env (JsonObject (filename, uploadId, parts)) =
        (json_response 400 (ErrorJson ''Invalid request'' ''Missing required fields''), [])) \<and>
   (truthy filename \<and> truthy uploadId \<longrightarrow>
      snd (complete_multipart env (JsonObject (filename, uploadId, PartsArray ps))) =
        ResumeMultipartUpload filename uploadId #
          (case resumeMultipartUpload env filename uploadId of
             Inl m \<Rightarrow> []
           | Inr upload \<Rightarrow> [Complete filename uploadId (sort_parts ps)])) \<and>
   (truthy filename \<and> truthy uploadId \<longrightarrow>
      complete_multipart env (JsonObject (filename, uploadId, PartsArrayOther (map PartValue ps))) =
        complete_multipart env (JsonObject (filename, uploadId, PartsArray ps))) \<and>
   (truthy filename \<and> truthy uploadId \<and> parts_of vs = None \<and> comparator_throws vs \<longrightarrow>
      status_of (fst (complete_multipart env (JsonObject (filename, uploadId, PartsArrayOther vs)))) =
        Some 500 \<and>
      error_of (fst (complete_multipart env (JsonObject (filename, uploadId, PartsArrayOther vs)))) =
        Some ''Failed to complete multipart upload'' \<and>
      snd (complete_multipart env (JsonObject (filename, uploadId, PartsArrayOther vs))) = []) \<and>
   (truthy filename \<and> truthy uploadId \<and> parts_of vs = None \<and> \<not> comparator_throws vs \<longrightarrow>
      snd (complete_multipart env (JsonObject (filename, uploadId, PartsArrayOther vs))) =
        ResumeMultipartUpload filename uploadId #
          (case resumeMultipartUpload env filename uploadId of
             Inl m \<Rightarrow> []
           | Inr upload \<Rightarrow> [CompleteOther filename uploadId (mset vs)]))"
proof (intro conjI impI)
  assume "\<not> truthy filename \<or> \<not> truthy uploadId \<or> \<not> isArray parts"
  then show "complete_multipart env (JsonObject (filename, uploadId, parts)) =
        (json_response 400 (ErrorJson ''Invalid request'' ''Missing required fields''), [])"
    by (auto simp: complete_multipart_def)
next
  assume "truthy filename \<and> truthy uploadId"
  then show "snd (complete_multipart env (JsonObject (filename, uploadId, PartsArray ps))) =
        ResumeMultipartUpload filename uploadId #
          (case resumeMultipartUpload env filename uploadId of
             Inl m \<Rightarrow> []
           | Inr upload \<Rightarrow> [Complete filename uploadId (sort_parts ps)])"
    by (simp add: complete_multipart_def complete_sorted_def split: sum.splits)
next
  assume "truthy filename \<and> truthy uploadId"
  then show "complete_multipart env (JsonObject (filename, uploadId, PartsArrayOther (map PartValue ps))) =
        complete_multipart env (JsonObject (filename, uploadId, PartsArray ps))"
    by (simp add: complete_multipart_def parts_of_PartValue)
next
  assume "truthy filename \<and> truthy uploadId \<and> parts_of vs = None \<and> comparator_throws vs"
  then show "status_of (fst (complete_multipart env (JsonObject (filename, uploadId, PartsArrayOther vs)))) =
        Some 500"
    and "error_of (fst (complete_multipart env (JsonObject (filename, uploadId, PartsArrayOther vs)))) =
        Some ''Failed to complete multipart upload''"
    and "snd (complete_multipart env (JsonObject (filename, uploadId, PartsArrayOther vs))) = []"
    by (simp_all add: complete_multipart_def json_response_def)
next
  assume "truthy filename \<and> truthy uploadId \<and> parts_of vs = None \<and> \<not> comparator_throws vs"
  then show "snd (complete_multipart env (JsonObject (filename, uploadId, PartsArrayOther vs))) =
        ResumeMultipartUpload filename uploadId #
          (case resumeMultipartUpload env filename uploadId of
             Inl m \<Rightarrow> []
           | Inr upload \<Rightarrow> [CompleteOther filename uploadId (mset vs)])"
    by (simp add: complete_multipart_def complete_other_sorted_def split: sum.splits)
qed

theorem complete_validation_witness:
  "complete_multipart failing_backend (JsonObject (None, Some ''upload-1'', PartsArray [])) =
     (json_response 400 (ErrorJson ''Invalid request'' ''Missing required fields''), []) \<and>
   complete_multipart failing_backend (JsonObject (Some ''a.bin'', None, PartsArray [])) =
     (json_response 400 (ErrorJson ''Invalid request'' ''Missing required fields''), []) \<and>
   complete_multipart failing_backend (JsonObject (Some ''a.bin'', Some ''upload-1'', PartsMissing)) =
     (json_response 400 (ErrorJson ''Invalid request'' ''Missing required fields''), []) \<and>
   complete_multipart failing_backend (JsonObject (Some ''a.bin'', Some ''upload-1'', PartsNotArray)) =
     (json_response 400 (ErrorJson ''Invalid request'' ''Missing required fields''), []) \<and>
   snd (complete_multipart ok_backend (JsonObject (Some ''a.bin'', Some ''upload-1'',
      PartsArray [\<lparr>partNumber = 2, etag = ''e2''\<rparr>, \<lparr>partNumber = 1, etag = ''e1''\<rparr>]))) =
     [ResumeMultipartUpload (Some ''a.bin'') (Some ''upload-1''),
      Complete (Some ''a.bin'') (Some ''upload-1'') [\<lparr>partNumber = 1, etag = ''e1''\<rparr>, \<lparr>partNumber = 2, etag = ''e2''\<rparr>]] \<and>
   status_of (fst (complete_multipart ok_backend (JsonObject (Some ''a.bin'', Some ''upload-1'',
      PartsArrayOther [PartValue \<lparr>partNumber = 1, etag = ''e1''\<rparr>, NullValue])))) = Some 500 \<and>
   snd (complete_multipart ok_backend (JsonObject (Some ''a.bin'', Some ''upload-1'',
      PartsArrayOther [PartValue \<lparr>partNumber = 1, etag = ''e1''\<rparr>, NullValue]))) = [] \<and>
   snd (complete_multipart ok_backend (JsonObject (Some ''a.bin'', Some ''upload-1'',
      PartsArrayOther [UnconvertibleValue, OtherValue]))) = [] \<and>
   snd (complete_multipart ok_backend (JsonObject (Some ''a.bin'', Some ''upload-1'',
      PartsArrayOther [NullValue]))) =
     [ResumeMultipartUpload (Some ''a.bin'') (Some ''upload-1''),
      CompleteOther (Some ''a.bin'') (Some ''upload-1'') (mset [NullValue])]"
proof -
  have sorted: "sort_parts [\<lparr>partNumber = 2, etag = ''e2''\<rparr>, \<lparr>partNumber = 1, etag = ''e1''\<rparr>] =
      [\<lparr>partNumber = 1, etag = ''e1''\<rparr>, \<lparr>partNumber = 2, etag = ''e2''\<rparr>]"
    by (simp add: sort_parts_def array_sort_def)
  have resumed: "resumeMultipartUpload ok_backend (Some ''a.bin'') (Some ''upload-1'') = Inr ()"
    by (simp add: ok_backend_def)
  have throws: "truthy (Some ''a.bin'') \<and> truthy (Some ''upload-1'') \<and>
      parts_of [PartValue \<lparr>partNumber = 1, etag = ''e1''\<rparr>, NullValue] = None \<and>
      comparator_throws [PartValue \<lparr>partNumber = 1, etag = ''e1''\<rparr>, NullValue]"
    by (simp add: comparator_throws_def)
  have unconvertible: "truthy (Some ''a.bin'') \<and> truthy (Some ''upload-1'') \<and>
      parts_of [UnconvertibleValue, OtherValue] = None \<and>
      comparator_throws [UnconvertibleValue, OtherValue]"
    by (simp add: comparator_throws_def)
  have single: "truthy (Some ''a.bin'') \<and> truthy (Some ''upload-1'') \<and>
      parts_of [NullValue] = None \<and> \<not> comparator_throws [NullValue]"
    by (simp add: comparator_throws_def)
  from complete_validation [where filename = None and uploadId = "Some ''upload-1''"
      and parts = "PartsArray []" and env = failing_backend]
    complete_validation [where filename = "Some ''a.bin''" and uploadId = None
      and parts = "PartsArray []" and env = failing_backend]
    complete_validation [where filename = "Some ''a.bin''" and uploadId = "Some ''upload-1''"
      and parts = PartsMissing and env = failing_backend]
    complete_validation [where filename = "Some ''a.bin''" and uploadId = "Some ''upload-1''"
      and parts = PartsNotArray and env = failing_backend]
    complete_validation [where filename = "Some ''a.bin''" and uploadId = "Some ''upload-1''"
      and env = ok_backend
      and ps = "[\<lparr>partNumber = 2, etag = ''e2''\<rparr>, \<lparr>partNumber = 1, etag = ''e1''\<rparr>]"]
    complete_validation [where filename = "Some ''a.bin''" and uploadId = "Some ''upload-1''"
      and env = ok_backend and vs = "[PartValue \<lparr>partNumber = 1, etag = ''e1''\<rparr>, NullValue]"]
    complete_validation [where filename = "Some ''a.bin''" and uploadId = "Some ''upload-1''"
      and env = ok_backend and vs = "[UnconvertibleValue, OtherValue]"]
    complete_validation [where filename = "Some ''a.bin''" and uploadId = "Some ''upload-1''"
      and env = ok_backend and vs = "[NullValue]"]
    sorted resumed throws unconvertible single
  show ?thesis by simp
qed

theorem complete_validation_counterexample:
  "complete_multipart ok_backend (JsonObject (Some [], Some ''upload-1'', PartsArray [])) =
     (json_response 400 (ErrorJson ''Invalid request'' ''Missing required fields''), []) \<and>
   status_of (fst (complete_multipart ok_backend (JsonObject (Some ''a.bin'', Some ''upload-1'',
      PartsArrayOther [NullValue, NullValue])))) = Some 500 \<and>
   error_of (fst (complete_multipart ok_backend (JsonObject (Some ''a.bin'', Some ''upload-1'',
      PartsArrayOther [NullValue, NullValue])))) = Some ''Failed to complete multipart upload'' \<and>
   snd (complete_multipart ok_backend (JsonObject (Some ''a.bin'', Some ''upload-1'',
      PartsArrayOther [NullValue, NullValue]))) = []"
  by (simp add: complete_multipart_def comparator_throws_def json_response_def)

section \<open>The abort handler\<close>

text \<open>
  Claim C7 asks for a structured response to every abort request. The handler reads the
  body before its \<^verbatim>\<open>try\<close>: for a body that is not JSON, or that is the JSON value
  \<^verbatim>\<open>null\<close>, the exception leaves the handler and no response is built.
\<close>

theorem abort_body_uncaught:
  "abort_multipart env (NotJson m) = (Uncaught m, []) \<and>
   abort_multipart env JsonNull = (Uncaught null_property_message, [])"
  by (simp add: abort_multipart_def)

text \<open>For a body that is a JSON object the answer is the success body or the structured
  500, whatever the store does.\<close>

lemma abort_object_body_structured:
  "fst (abort_multipart env (JsonObject (filename, uploadId))) = json_response 200 SuccessJson \<or>
   (\<exists>m. fst (abort_multipart env (JsonObject (filename, uploadId))) =
      json_response 500 (ErrorJson ''Failed to abort multipart upload'' (details_of m)))"
  by (auto simp: abort_multipart_def split: sum.splits)

section \<open>The part upload handler\<close>

lemmas parseInt_unfold =
  parseInt_def skip_white_space.simps leading_white_space_def white_space_def is_digit_def
  digits_value_def digit_value_def round_to_double_def

lemma parseInt_examples:
  "parseInt ''7'' = Finite 7" "parseInt ''0'' = Finite 0" "parseInt ''abc'' = NaN"
  "parseInt ''-3'' = Finite (- 3)" "parseInt '' 12px'' = Finite 12" "parseInt ''10001'' = Finite 10001"
  "parseInt ''1'' = Finite 1" "parseInt ''-0'' = Finite 0" "parseInt [] = NaN"
  by (simp_all add: parseInt_unfold)

text \<open>White space beyond ASCII is skipped: U+00A0 before 5, and U+FEFF and a TAB before +42.\<close>

lemma parseInt_white_space:
  "parseInt [CHR 0xC2, CHR 0xA0, CHR ''5''] = Finite 5"
  "parseInt [CHR 0xEF, CHR 0xBB, CHR 0xBF, CHR 0x09, CHR ''+'', CHR ''4'', CHR ''2''] = Finite 42"
  by (simp_all add: parseInt_unfold)

text \<open>Beyond \<open>2^53\<close> the number is the nearest double.\<close>

lemma parseInt_rounds:
  "parseInt ''9007199254740993'' = Finite 9007199254740992"
  "parseInt ''99999999999999999999999'' = Finite 99999999999999991611392"
  by (simp_all add: parseInt_unfold Let_def bit_length.simps)

lemma or_default_missing: "or_default None d = d" "or_default (Some []) d = d"
  by (simp_all add: or_default_def)

lemma parseInt_zero: "parseInt ''0'' = Finite 0"
  by (simp add: parseInt_unfold)

text \<open>The relay reads back the part number that the plan printed into a part's URL.\<close>

lemma digit_char_digit:
  assumes "d < 10"
  shows "is_digit (digit_char d)" and "digit_value (digit_char d) = d"
proof -
  from assms have "d \<in> {0, 1, 2, 3, 4, 5, 6, 7, 8, 9}" by auto
  then show "is_digit (digit_char d)" and "digit_value (digit_char d) = d"
    by (auto simp: is_digit_def digit_value_def digit_char_def)
qed

lemma digits_value_snoc: "digits_value (ds @ [c]) = 10 * digits_value ds + int (digit_value c)"
  by (simp add: digits_value_def)

lemma string_of_nat_digits:
  "string_of_nat n \<noteq> [] \<and> list_all is_digit (string_of_nat n) \<and>
   digits_value (string_of_nat n) = int n"
proof (induction n rule: string_of_nat.induct)
  case (1 n)
  show ?case
  proof (cases "n < 10")
    case True
    then show ?thesis
      by (subst (1 2 3) string_of_nat.simps) (simp add: digit_char_digit digits_value_def)
  next
    case False
    have "n mod 10 < 10" by simp
    moreover have "10 * int (n div 10) + int (n mod 10) = int n"
    proof -
      have "int (10 * (n div 10) + n mod 10) = int n" by simp
      then show ?thesis by (simp only: of_nat_add of_nat_mult of_nat_numeral)
    qed
    ultimately show ?thesis
      using 1 False
      by (subst (1 2 3) string_of_nat.simps)
         (simp add: digit_char_digit digits_value_snoc)
  qed
qed

lemma white_space_heads: "\<forall>w \<in> set white_space. w \<noteq> [] \<and> \<not> is_digit (hd w)"
  by (simp add: white_space_def is_digit_def)

lemma digit_not_white_space:
  assumes "is_digit c"
  shows "leading_white_space (c # s) = None"
proof -
  have "take (length w) (c # s) \<noteq> w" if "w \<in> set white_space" for w
  proof
    assume eq: "take (length w) (c # s) = w"
    from that white_space_heads have w: "w \<noteq> []" "\<not> is_digit (hd w)" by auto
    then obtain x xs where "w = x # xs" by (cases w) auto
    with eq have "x = c" by simp
    with w \<open>w = x # xs\<close> assms show False by simp
  qed
  then show ?thesis
    by (auto simp: leading_white_space_def find_None_iff)
qed

lemma parseInt_string_of_nat:
  assumes "int n < 2 ^ 53"
  shows "parseInt (string_of_nat n) = Finite (int n)"
proof -
  obtain c s where cs: "string_of_nat n = c # s"
    using string_of_nat_digits [of n] by (cases "string_of_nat n") auto
  have digits: "list_all is_digit (c # s)" and number: "digits_value (c # s) = int n"
    using string_of_nat_digits [of n] by (simp_all add: cs)
  then have c: "is_digit c" by simp
  have "skip_white_space (c # s) = c # s"
    by (subst skip_white_space.simps) (simp add: digit_not_white_space [OF c])
  moreover have "c \<noteq> CHR ''-''" "c \<noteq> CHR ''+''"
    using c by (auto simp: is_digit_def)
  moreover have "takeWhile is_digit (c # s) = c # s"
    using digits by (simp add: list_all_iff)
  moreover have "round_to_double (int n) = Some (int n)"
    using assms by (simp add: round_to_double_def)
  ultimately show ?thesis
    by (simp add: parseInt_def cs number)
qed

lemma parseInt_string_of_int:
  assumes "0 \<le> k" and "k < 2 ^ 53"
  shows "parseInt (string_of_int k) = Finite k"
  using assms parseInt_string_of_nat [of "nat k"] by (simp add: string_of_int_def)

lemma copy_chunks_concat:
  "offset + length (concat chunks) \<le> length buffer \<Longrightarrow>
     copy_chunks chunks buffer offset =
       take offset buffer @ concat chunks @ drop (offset + length (concat chunks)) buffer"
proof (induction chunks arbitrary: buffer offset)
  case Nil
  then show ?case by simp
next
  case (Cons c cs)
  have len: "length (buffer_set buffer c offset) = length buffer"
    using Cons.prems by (simp add: buffer_set_def)
  have "copy_chunks cs (buffer_set buffer c offset) (offset + length c) =
      take (offset + length c) (buffer_set buffer c offset) @ concat cs @
        drop (offset + length c + length (concat cs)) (buffer_set buffer c offset)"
    using Cons.prems by (intro Cons.IH) (simp add: len)
  also have "take (offset + length c) (buffer_set buffer c offset) = take offset buffer @ c"
    using Cons.prems by (simp add: buffer_set_def)
  also have "drop (offset + length c + length (concat cs)) (buffer_set buffer c offset) =
      drop (offset + length c + length (concat cs)) buffer"
    using Cons.prems by (simp add: buffer_set_def ac_simps)
  finally show ?case by (simp add: add.assoc)
qed

lemma totalLength_concat: "totalLength chunks = length (concat chunks)"
proof -
  have "foldl (\<lambda>acc chunk. acc + length chunk) n chunks = n + length (concat chunks)" for n
    by (induction chunks arbitrary: n) simp_all
  then show ?thesis by (simp add: totalLength_def)
qed

lemma concat_chunks_concat: "concat_chunks chunks = concat chunks"
  using copy_chunks_concat [of 0 chunks "replicate (totalLength chunks) 0"]
  by (simp add: concat_chunks_def totalLength_concat)

lemma read_loop_chunks: "read_loop (map Chunk cs) acc = Inr (acc @ cs)"
  by (induction cs arbitrary: acc) simp_all

text \<open>
  Claim C9. A PUT whose \<^verbatim>\<open>uploadId\<close> or \<^verbatim>\<open>partNumber\<close> query parameter is missing is
  answered with 400 and no call on the store. For a request that passes this check, a
  failure of the store, in \<^verbatim>\<open>resumeMultipartUpload\<close> or in \<^verbatim>\<open>uploadPart\<close>, is answered
  with 500 whose details are the store's message.
\<close>

theorem upload_part_errors:
  "(map_of searchParams ''uploadId'' = None \<or> map_of searchParams ''partNumber'' = None \<longrightarrow>
      upload_part env ''PUT'' key searchParams request_body =
        (Responded \<lparr>status = 400, body = Text ''Missing uploadId or partNumber''\<rparr>, [])) \<and>
   (truthy (map_of searchParams ''uploadId'') \<and>
    truthy_number (parseInt (or_default (map_of searchParams ''partNumber'') ''0'')) \<and>
    resumeMultipartUpload env (Some key) (map_of searchParams ''uploadId'') = Inl m \<longrightarrow>
      upload_part env ''PUT'' key searchParams request_body =
        (json_response 500 (ErrorJson ''Failed to upload part'' (details_of m)),
         [ResumeMultipartUpload (Some key) (map_of searchParams ''uploadId'')])) \<and>
   (truthy (map_of searchParams ''uploadId'') \<and>
    parseInt (or_default (map_of searchParams ''partNumber'') ''0'') = pn \<and> truthy_number pn \<and>
    resumeMultipartUpload env (Some key) (map_of searchParams ''uploadId'') = Inr () \<and>
    request_body = Some stream \<and> read_loop stream [] = Inr chunks \<and>
    uploadPart env (Some key) (map_of searchParams ''uploadId'') pn (concat_chunks chunks) = Inl m \<longrightarrow>
      upload_part env ''PUT'' key searchParams request_body =
        (json_response 500 (ErrorJson ''Failed to upload part'' (details_of m)),
         [ResumeMultipartUpload (Some key) (map_of searchParams ''uploadId''),
          UploadPart (Some key) (map_of searchParams ''uploadId'') pn (concat_chunks chunks)]))"
proof (intro conjI impI)
  assume "map_of searchParams ''uploadId'' = None \<or> map_of searchParams ''partNumber'' = None"
  then show "upload_part env ''PUT'' key searchParams request_body =
        (Responded \<lparr>status = 400, body = Text ''Missing uploadId or partNumber''\<rparr>, [])"
    by (auto simp: upload_part_def Let_def or_default_def parseInt_zero)
next
  assume "truthy (map_of searchParams ''uploadId'') \<and>
    truthy_number (parseInt (or_default (map_of searchParams ''partNumber'') ''0'')) \<and>
    resumeMultipartUpload env (Some key) (map_of searchParams ''uploadId'') = Inl m"
  then show "upload_part env ''PUT'' key searchParams request_body =
        (json_response 500 (ErrorJson ''Failed to upload part'' (details_of m)),
         [ResumeMultipartUpload (Some key) (map_of searchParams ''uploadId'')])"
    by (simp add: upload_part_def Let_def)
next
  assume "truthy (map_of searchParams ''uploadId'') \<and>
    parseInt (or_default (map_of searchParams ''partNumber'') ''0'') = pn \<and> truthy_number pn \<and>
    resumeMultipartUpload env (Some key) (map_of searchParams ''uploadId'') = Inr () \<and>
    request_body = Some stream \<and> read_loop stream [] = Inr chunks \<and>
    uploadPart env (Some key) (map_of searchParams ''uploadId'') pn (concat_chunks chunks) = Inl m"
  then show "upload_part env ''PUT'' key searchParams request_body =
        (json_response 500 (ErrorJson ''Failed to upload part'' (details_of m)),
         [ResumeMultipartUpload (Some key) (map_of searchParams ''uploadId''),
          UploadPart (Some key) (map_of searchParams ''uploadId'') pn (concat_chunks chunks)])"
    by (auto simp: upload_part_def Let_def)
qed

theorem upload_part_errors_witness:
  "upload_part failing_backend ''PUT'' ''a.bin'' [(''partNumber'', ''1'')] None =
     (Responded \<lparr>status = 400, body = Text ''Missing uploadId or partNumber''\<rparr>, []) \<and>
   upload_part failing_backend ''PUT'' ''a.bin'' [(''uploadId'', ''upload-1'')] None =
     (Responded \<lparr>status = 400, body = Text ''Missing uploadId or partNumber''\<rparr>, []) \<and>
   upload_part failing_backend ''PUT'' ''a.bin'' [(''partNumber'', ''1''), (''uploadId'', ''upload-1'')] None =
     (json_response 500 (ErrorJson ''Failed to upload part'' ''store error''),
      [ResumeMultipartUpload (Some ''a.bin'') (Some ''upload-1'')]) \<and>
   upload_part part_failing_backend ''PUT'' ''a.bin'' [(''partNumber'', ''1''), (''uploadId'', ''upload-1'')]
       (Some [Chunk [1, 2], Chunk [3]]) =
     (json_response 500 (ErrorJson ''Failed to upload part'' ''store error''),
      [ResumeMultipartUpload (Some ''a.bin'') (Some ''upload-1''),
       UploadPart (Some ''a.bin'') (Some ''upload-1'') (Finite 1) [1, 2, 3]])"
proof -
  let ?both = "[(''partNumber'', ''1''), (''uploadId'', ''upload-1'')]"
  have one: "parseInt ''1'' = Finite 1" by (rule parseInt_examples)
  have no_id: "map_of [(''partNumber'', ''1'')] ''uploadId'' = None \<or>
      map_of [(''partNumber'', ''1'')] ''partNumber'' = None"
    by simp
  have no_number: "map_of [(''uploadId'', ''upload-1'')] ''uploadId'' = None \<or>
      map_of [(''uploadId'', ''upload-1'')] ''partNumber'' = None"
    by simp
  have resume_fails: "truthy (map_of ?both ''uploadId'') \<and>
      truthy_number (parseInt (or_default (map_of ?both ''partNumber'') ''0'')) \<and>
      resumeMultipartUpload failing_backend (Some ''a.bin'') (map_of ?both ''uploadId'') = Inl ''store error''"
    by (simp add: or_default_def one failing_backend_def)
  have part_fails: "truthy (map_of ?both ''uploadId'') \<and>
      parseInt (or_default (map_of ?both ''partNumber'') ''0'') = Finite 1 \<and> truthy_number (Finite 1) \<and>
      resumeMultipartUpload part_failing_backend (Some ''a.bin'') (map_of ?both ''uploadId'') = Inr () \<and>
      Some [Chunk [1, 2], Chunk [3]] = Some [Chunk [1, 2], Chunk [3]] \<and>
      read_loop [Chunk [1, 2], Chunk [3]] [] = Inr [[1, 2], [3]] \<and>
      uploadPart part_failing_backend (Some ''a.bin'') (map_of ?both ''uploadId'') (Finite 1)
        (concat_chunks [[1, 2], [3]]) = Inl ''store error''"
    by (simp add: or_default_def one part_failing_backend_def)
  have buffer: "concat_chunks [[1, 2], [3]] = [1, 2, 3]"
    by (simp add: concat_chunks_concat)
  have details: "details_of ''store error'' = ''store error''"
    by (simp add: details_of_def)
  from upload_part_errors [where searchParams = "[(''partNumber'', ''1'')]" and env = failing_backend
      and key = "''a.bin''" and request_body = None] no_id
    upload_part_errors [where searchParams = "[(''uploadId'', ''upload-1'')]" and env = failing_backend
      and key = "''a.bin''" and request_body = None] no_number
    upload_part_errors [where searchParams = ?both and env = failing_backend
      and key = "''a.bin''" and request_body = None and m = "''store error''"] resume_fails
    upload_part_errors [where searchParams = ?both and env = part_failing_backend
      and key = "''a.bin''" and request_body = "Some [Chunk [1, 2], Chunk [3]]" and m = "''store error''"
      and pn = "Finite 1" and stream = "[Chunk [1, 2], Chunk [3]]" and chunks = "[[1, 2], [3]]"] part_fails
    buffer details
  show ?thesis by simp
qed

section \<open>Part numbers and the planned range\<close>

lemma handleMultipartUpload_records:
  assumes "list_all (part_uploads net file_size) parts"
  shows "map partNumber (completedParts (handleMultipartUpload net file_name file_size uploadId parts)) =
           map partNumber parts \<and>
         filter is_PostComplete (calls (handleMultipartUpload net file_name file_size uploadId parts)) =
           [PostComplete file_name uploadId
              (completedParts (handleMultipartUpload net file_name file_size uploadId parts))]"
proof -
  obtain st where st: "upload_parts net file_size parts initial_state = (Inr (), st)"
    using upload_parts_succeeds [OF assms, of initial_state]
    by (cases "upload_parts net file_size parts initial_state") simp
  have parts: "map partNumber (completedParts st) = map partNumber parts"
    using upload_parts_succeeds [OF assms, of initial_state] st by (simp add: initial_state_def)
  have trace: "filter is_PostComplete (calls st) = []"
    using upload_parts_calls [of net file_size parts initial_state] st by (simp add: initial_state_def)
  show ?thesis
    using parts trace
    by (simp add: handleMultipartUpload_def st Let_def on_error_def split: fetched.splits)
qed

text \<open>
  Claim C6, as the code has it. The part upload handler keeps no session. It answers 400
  exactly when the upload id is missing or empty or \<^verbatim>\<open>parseInt\<close> of the part number
  parameter (of \<^verbatim>\<open>'0'\<close> when the parameter is missing or empty) is \<^verbatim>\<open>NaN\<close> or 0. Every
  other request resumes the upload, and when the store resumes it: with a body that is
  read to its end, the number \<^verbatim>\<open>parseInt\<close> read, inside the planned range or not, goes to
  the store's \<^verbatim>\<open>uploadPart\<close>, once; with no body, or a body whose reading fails, nothing
  goes to \<^verbatim>\<open>uploadPart\<close> and the answer is 500. The record of one completed part per
  planned part is the driver's: when every part uploads, its completed parts carry the
  part numbers of the plan, in plan order, and these are what its one completion request
  sends.
\<close>

theorem part_number_forwarded:
  "((upload_part env ''PUT'' key searchParams request_body =
       (Responded \<lparr>status = 400, body = Text ''Missing uploadId or partNumber''\<rparr>, [])) =
    (\<not> truthy (map_of searchParams ''uploadId'') \<or>
     \<not> truthy_number (parseInt (or_default (map_of searchParams ''partNumber'') ''0'')))) \<and>
   (truthy (map_of searchParams ''uploadId'') \<and>
    parseInt (or_default (map_of searchParams ''partNumber'') ''0'') = pn \<and> truthy_number pn \<and>
    resumeMultipartUpload env (Some key) (map_of searchParams ''uploadId'') = Inr () \<and>
    read_loop stream [] = Inr chunks \<longrightarrow>
      snd (upload_part env ''PUT'' key searchParams (Some stream)) =
        [ResumeMultipartUpload (Some key) (map_of searchParams ''uploadId''),
         UploadPart (Some key) (map_of searchParams ''uploadId'') pn (concat chunks)]) \<and>
   (truthy (map_of searchParams ''uploadId'') \<and>
    truthy_number (parseInt (or_default (map_of searchParams ''partNumber'') ''0'')) \<and>
    resumeMultipartUpload env (Some key) (map_of searchParams ''uploadId'') = Inr () \<and>
    read_loop stream [] = Inl m \<longrightarrow>
      upload_part env ''PUT'' key searchParams (Some stream) =
        (json_response 500 (ErrorJson ''Failed to upload part'' (details_of m)),
         [ResumeMultipartUpload (Some key) (map_of searchParams ''uploadId'')])) \<and>
   (truthy (map_of searchParams ''uploadId'') \<and>
    truthy_number (parseInt (or_default (map_of searchParams ''partNumber'') ''0'')) \<and>
    resumeMultipartUpload env (Some key) (map_of searchParams ''uploadId'') = Inr () \<longrightarrow>
      upload_part env ''PUT'' key searchParams None =
        (json_response 500 (ErrorJson ''Failed to upload part'' ''Request body is required''),
         [ResumeMultipartUpload (Some key) (map_of searchParams ''uploadId'')])) \<and>
   (list_all (part_uploads net file_size) parts \<longrightarrow>
      map partNumber (completedParts (handleMultipartUpload net file_name file_size uploadId parts)) =
        map partNumber parts \<and>
      filter is_PostComplete (calls (handleMultipartUpload net file_name file_size uploadId parts)) =
        [PostComplete file_name uploadId
           (completedParts (handleMultipartUpload net file_name file_size uploadId parts))])"
proof (intro conjI impI)
  show "(upload_part env ''PUT'' key searchParams request_body =
       (Responded \<lparr>status = 400, body = Text ''Missing uploadId or partNumber''\<rparr>, [])) =
    (\<not> truthy (map_of searchParams ''uploadId'') \<or>
     \<not> truthy_number (parseInt (or_default (map_of searchParams ''partNumber'') ''0'')))"
    by (auto simp: upload_part_def Let_def json_response_def split: sum.splits option.splits)
next
  assume "truthy (map_of searchParams ''uploadId'') \<and>
    parseInt (or_default (map_of searchParams ''partNumber'') ''0'') = pn \<and> truthy_number pn \<and>
    resumeMultipartUpload env (Some key) (map_of searchParams ''uploadId'') = Inr () \<and>
    read_loop stream [] = Inr chunks"
  then show "snd (upload_part env ''PUT'' key searchParams (Some stream)) =
        [ResumeMultipartUpload (Some key) (map_of searchParams ''uploadId''),
         UploadPart (Some key) (map_of searchParams ''uploadId'') pn (concat chunks)]"
    by (auto simp: upload_part_def Let_def concat_chunks_concat split: sum.splits)
next
  assume "truthy (map_of searchParams ''uploadId'') \<and>
    truthy_number (parseInt (or_default (map_of searchParams ''partNumber'') ''0'')) \<and>
    resumeMultipartUpload env (Some key) (map_of searchParams ''uploadId'') = Inr () \<and>
    read_loop stream [] = Inl m"
  then show "upload_part env ''PUT'' key searchParams (Some stream) =
        (json_response 500 (ErrorJson ''Failed to upload part'' (details_of m)),
         [ResumeMultipartUpload (Some key) (map_of searchParams ''uploadId'')])"
    by (simp add: upload_part_def Let_def)
next
  assume "truthy (map_of searchParams ''uploadId'') \<and>
    truthy_number (parseInt (or_default (map_of searchParams ''partNumber'') ''0'')) \<and>
    resumeMultipartUpload env (Some key) (map_of searchParams ''uploadId'') = Inr ()"
  then show "upload_part env ''PUT'' key searchParams None =
        (json_response 500 (ErrorJson ''Failed to upload part'' ''Request body is required''),
         [ResumeMultipartUpload (Some key) (map_of searchParams ''uploadId'')])"
    by (simp add: upload_part_def Let_def details_of_def)
next
  assume all: "list_all (part_uploads net file_size) parts"
  from handleMultipartUpload_records [OF all]
  show "map partNumber (completedParts (handleMultipartUpload net file_name file_size uploadId parts)) =
        map partNumber parts"
    and "filter is_PostComplete (calls (handleMultipartUpload net file_name file_size uploadId parts)) =
        [PostComplete file_name uploadId
           (completedParts (handleMultipartUpload net file_name file_size uploadId parts))]"
    by simp_all
qed

theorem part_number_forwarded_counterexample:
  "map partNumber (plan_parts (fst (initiate_upload ok_backend ''https://relay'' (JsonObject (''a.bin'', 26214400))))) =
     [1, 2, 3] \<and>
   upload_part ok_backend ''PUT'' ''a.bin'' [(''partNumber'', ''7''), (''uploadId'', ''upload-1'')]
       (Some [Chunk [1, 2, 3]]) =
     (json_response 200 (PartJson ''etag''),
      [ResumeMultipartUpload (Some ''a.bin'') (Some ''upload-1''),
       UploadPart (Some ''a.bin'') (Some ''upload-1'') (Finite 7) [1, 2, 3]])"
proof -
  have seven: "parseInt ''7'' = Finite 7" by (rule parseInt_examples)
  have buffer: "concat_chunks [[1, 2, 3]] = [1, 2, 3]" by (simp add: concat_chunks_concat)
  have plan: "map partNumber (plan_parts (fst (initiate_upload ok_backend ''https://relay'' (JsonObject (''a.bin'', 26214400))))) =
     [1, 2, 3]"
    by (simp add: initiate_upload_def CHUNK_SIZE_def MIN_PART_SIZE_def MAX_PARTS_def ceil_div_def
        ok_backend_def json_response_def plan_loop_numbers upto_rec1)
  have part: "upload_part ok_backend ''PUT'' ''a.bin'' [(''partNumber'', ''7''), (''uploadId'', ''upload-1'')]
       (Some [Chunk [1, 2, 3]]) =
     (json_response 200 (PartJson ''etag''),
      [ResumeMultipartUpload (Some ''a.bin'') (Some ''upload-1''),
       UploadPart (Some ''a.bin'') (Some ''upload-1'') (Finite 7) [1, 2, 3]])"
    by (simp add: upload_part_def Let_def or_default_def seven buffer ok_backend_def)
  from plan part show ?thesis by simp
qed

theorem part_number_forwarded_witness:
  "snd (upload_part ok_backend ''PUT'' ''a.bin'' [(''partNumber'', ''10001''), (''uploadId'', ''upload-1'')]
       (Some [Chunk [1, 2], Chunk [3]])) =
     [ResumeMultipartUpload (Some ''a.bin'') (Some ''upload-1''),
      UploadPart (Some ''a.bin'') (Some ''upload-1'') (Finite 10001) [1, 2, 3]] \<and>
   snd (upload_part ok_backend ''PUT'' ''a.bin''
       [(''partNumber'', [CHR 0xC2, CHR 0xA0, CHR ''5'']), (''uploadId'', ''upload-1'')]
       (Some [Chunk [1, 2], Chunk [3]])) =
     [ResumeMultipartUpload (Some ''a.bin'') (Some ''upload-1''),
      UploadPart (Some ''a.bin'') (Some ''upload-1'') (Finite 5) [1, 2, 3]] \<and>
   upload_part ok_backend ''PUT'' ''a.bin'' [(''partNumber'', ''10001''), (''uploadId'', ''upload-1'')]
       (Some [Chunk [1, 2], ReadError ''reset'']) =
     (json_response 500 (ErrorJson ''Failed to upload part'' ''reset''),
      [ResumeMultipartUpload (Some ''a.bin'') (Some ''upload-1'')]) \<and>
   upload_part ok_backend ''PUT'' ''a.bin'' [(''partNumber'', ''10001''), (''uploadId'', ''upload-1'')] None =
     (json_response 500 (ErrorJson ''Failed to upload part'' ''Request body is required''),
      [ResumeMultipartUpload (Some ''a.bin'') (Some ''upload-1'')]) \<and>
   upload_part ok_backend ''PUT'' ''a.bin'' [(''partNumber'', ''0''), (''uploadId'', ''upload-1'')] None =
     (Responded \<lparr>status = 400, body = Text ''Missing uploadId or partNumber''\<rparr>, []) \<and>
   map partNumber (completedParts (handleMultipartUpload ok_network ''a.bin'' 26214400 ''upload-1''
      [\<lparr>partNumber = 1, url = ''u1''\<rparr>, \<lparr>partNumber = 2, url = ''u2''\<rparr>, \<lparr>partNumber = 3, url = ''u3''\<rparr>])) =
     [1, 2, 3]"
proof -
  let ?far = "[(''partNumber'', ''10001''), (''uploadId'', ''upload-1'')]"
  let ?spaced = "[(''partNumber'', [CHR 0xC2, CHR 0xA0, CHR ''5'']), (''uploadId'', ''upload-1'')]"
  let ?zero = "[(''partNumber'', ''0''), (''uploadId'', ''upload-1'')]"
  let ?parts = "[\<lparr>partNumber = 1, url = ''u1''\<rparr>, \<lparr>partNumber = 2, url = ''u2''\<rparr>, \<lparr>partNumber = 3, url = ''u3''\<rparr>]"
  have forwarded: "truthy (map_of ?far ''uploadId'') \<and>
      parseInt (or_default (map_of ?far ''partNumber'') ''0'') = Finite 10001 \<and>
      truthy_number (Finite 10001) \<and>
      resumeMultipartUpload ok_backend (Some ''a.bin'') (map_of ?far ''uploadId'') = Inr () \<and>
      read_loop [Chunk [1, 2], Chunk [3]] [] = Inr [[1, 2], [3]]"
    by (simp add: or_default_def parseInt_examples ok_backend_def)
  have spaced: "truthy (map_of ?spaced ''uploadId'') \<and>
      parseInt (or_default (map_of ?spaced ''partNumber'') ''0'') = Finite 5 \<and>
      truthy_number (Finite 5) \<and>
      resumeMultipartUpload ok_backend (Some ''a.bin'') (map_of ?spaced ''uploadId'') = Inr () \<and>
      read_loop [Chunk [1, 2], Chunk [3]] [] = Inr [[1, 2], [3]]"
    by (simp add: or_default_def parseInt_white_space ok_backend_def)
  have broken: "truthy (map_of ?far ''uploadId'') \<and>
      truthy_number (parseInt (or_default (map_of ?far ''partNumber'') ''0'')) \<and>
      resumeMultipartUpload ok_backend (Some ''a.bin'') (map_of ?far ''uploadId'') = Inr () \<and>
      read_loop [Chunk [1, 2], ReadError ''reset''] [] = Inl ''reset''"
    by (simp add: or_default_def parseInt_examples ok_backend_def)
  have rejected: "\<not> truthy (map_of ?zero ''uploadId'') \<or>
      \<not> truthy_number (parseInt (or_default (map_of ?zero ''partNumber'') ''0''))"
    by (simp add: or_default_def parseInt_examples)
  have uploads: "list_all (part_uploads ok_network 26214400) ?parts"
    by (simp add: part_uploads_def ok_network_def)
  have details: "details_of ''reset'' = ''reset''" by (simp add: details_of_def)
  from part_number_forwarded [where searchParams = ?far and env = ok_backend and key = "''a.bin''"
      and pn = "Finite 10001" and stream = "[Chunk [1, 2], Chunk [3]]" and chunks = "[[1, 2], [3]]"] forwarded
    part_number_forwarded [where searchParams = ?spaced and env = ok_backend and key = "''a.bin''"
      and pn = "Finite 5" and stream = "[Chunk [1, 2], Chunk [3]]" and chunks = "[[1, 2], [3]]"] spaced
    part_number_forwarded [where searchParams = ?far and env = ok_backend and key = "''a.bin''"
      and stream = "[Chunk [1, 2], ReadError ''reset'']" and m = "''reset''"] broken
    part_number_forwarded [where searchParams = ?zero and env = ok_backend and key = "''a.bin''"
      and request_body = None] rejected
    part_number_forwarded [where net = ok_network and file_size = 26214400 and parts = ?parts
      and file_name = "''a.bin''" and uploadId = "''upload-1''"] uploads
    details
  show ?thesis by simp
qed

end
